theory Spec2Isabelle
  imports Complex_Main
begin

section \<open>Python values, exceptions and string primitives\<close>

text \<open>
  The scraper works on three kinds of data: the value tree that \<^verbatim>\<open>json.loads\<close> produces
  from the embedded JSON-LD block, Python strings, and BeautifulSoup elements.  Strings
  are modelled as ASCII \<^typ>\<open>string\<close>s.  A finite Python float is modelled by the rational it
  denotes (a float produced by \<^verbatim>\<open>float("15")\<close> or by \<^verbatim>\<open>1 / 2\<close> is the double nearest to
  that rational).  A float of the embedded data can also be an infinity or NaN, which
  \<^verbatim>\<open>json.loads\<close> produces from \<^verbatim>\<open>1e999\<close>, \<^verbatim>\<open>Infinity\<close> and \<^verbatim>\<open>NaN\<close>; the floats that the
  program computes itself from text are finite in the model.
\<close>

datatype pyfloat = Finite rat | PosInf | NegInf | NaN

datatype py_error =
    KeyError | IndexError | ValueError | ZeroDivisionError | TypeError | AttributeError
  | OverflowError
  | LibraryError string

datatype json =
    JNull
  | JBool bool
  | JInt int
  | JFloat pyfloat
  | JStr string
  | JList "json list"
  | JDict "(string \<times> json) list"

text \<open>Python truthiness (\<^verbatim>\<open>if x\<close>, \<^verbatim>\<open>not x\<close>) of a JSON value.\<close>

fun truthy :: "json \<Rightarrow> bool" where
  "truthy JNull = False"
| "truthy (JBool b) = b"
| "truthy (JInt i) = (i \<noteq> 0)"
| "truthy (JFloat f) = (f \<noteq> Finite 0)"
| "truthy (JStr s) = (s \<noteq> [])"
| "truthy (JList xs) = (xs \<noteq> [])"
| "truthy (JDict kvs) = (kvs \<noteq> [])"

text \<open>Sequencing of computations that may raise: the first exception wins.\<close>

definition ebind :: "py_error + 'a \<Rightarrow> ('a \<Rightarrow> py_error + 'b) \<Rightarrow> py_error + 'b" where
  "ebind x f = (case x of Inl e \<Rightarrow> Inl e | Inr v \<Rightarrow> f v)"

definition is_digit :: "char \<Rightarrow> bool" where
  "is_digit c = (c \<in> set ''0123456789'')"

text \<open>\<^verbatim>\<open>str.isspace\<close> on ASCII, which is also the class \<^verbatim>\<open>\s\<close> of \<^verbatim>\<open>re\<close> on \<^verbatim>\<open>str\<close> patterns.\<close>

definition is_space :: "char \<Rightarrow> bool" where
  "is_space c = (c \<in> set [CHR 0x09, CHR 0x0A, CHR 0x0B, CHR 0x0C, CHR 0x0D,
                            CHR 0x1C, CHR 0x1D, CHR 0x1E, CHR 0x1F, CHR '' ''])"

definition lower_char :: "char \<Rightarrow> char" where
  "lower_char c =
     (case map_of (zip ''ABCDEFGHIJKLMNOPQRSTUVWXYZ'' ''abcdefghijklmnopqrstuvwxyz'') c of
        Some d \<Rightarrow> d | None \<Rightarrow> c)"

definition upper_char :: "char \<Rightarrow> char" where
  "upper_char c =
     (case map_of (zip ''abcdefghijklmnopqrstuvwxyz'' ''ABCDEFGHIJKLMNOPQRSTUVWXYZ'') c of
        Some d \<Rightarrow> d | None \<Rightarrow> c)"

definition py_lower :: "string \<Rightarrow> string" where
  "py_lower s = map lower_char s"

definition py_lstrip :: "string \<Rightarrow> string" where
  "py_lstrip s = dropWhile is_space s"

definition py_rstrip :: "string \<Rightarrow> string" where
  "py_rstrip s = rev (dropWhile is_space (rev s))"

definition py_strip :: "string \<Rightarrow> string" where
  "py_strip s = py_lstrip (py_rstrip s)"

text \<open>\<^verbatim>\<open>s.rstrip(',')\<close> and \<^verbatim>\<open>s.rstrip('.')\<close>: trailing occurrences of one character.\<close>

definition py_rstrip_char :: "char \<Rightarrow> string \<Rightarrow> string" where
  "py_rstrip_char c s = rev (dropWhile (\<lambda>x. x = c) (rev s))"

text \<open>\<^verbatim>\<open>s.split()\<close>: the maximal runs of non-whitespace characters.\<close>

fun split_ws_aux :: "string \<Rightarrow> string \<Rightarrow> string list" where
  "split_ws_aux cur [] = (if cur = [] then [] else [cur])"
| "split_ws_aux cur (c # cs) =
     (if is_space c
      then (if cur = [] then split_ws_aux [] cs else cur # split_ws_aux [] cs)
      else split_ws_aux (cur @ [c]) cs)"

definition py_split_ws :: "string \<Rightarrow> string list" where
  "py_split_ws s = split_ws_aux [] s"

text \<open>\<^verbatim>\<open>s.split(c)\<close> and \<^verbatim>\<open>s.split(c, 1)\<close> for a one-character separator: empty
  pieces are kept.\<close>

fun split_char_aux :: "char \<Rightarrow> string \<Rightarrow> string \<Rightarrow> string list" where
  "split_char_aux sep cur [] = [cur]"
| "split_char_aux sep cur (c # cs) =
     (if c = sep then cur # split_char_aux sep [] cs
      else split_char_aux sep (cur @ [c]) cs)"

definition py_split_char :: "char \<Rightarrow> string \<Rightarrow> string list" where
  "py_split_char sep s = split_char_aux sep [] s"

definition py_split_char1 :: "char \<Rightarrow> string \<Rightarrow> string list" where
  "py_split_char1 sep s =
     (if sep \<in> set s
      then [takeWhile (\<lambda>c. c \<noteq> sep) s, tl (dropWhile (\<lambda>c. c \<noteq> sep) s)]
      else [s])"

fun py_join :: "string \<Rightarrow> string list \<Rightarrow> string" where
  "py_join sep [] = []"
| "py_join sep [x] = x"
| "py_join sep (x # y # zs) = x @ sep @ py_join sep (y # zs)"

definition startswith :: "string \<Rightarrow> string \<Rightarrow> bool" where
  "startswith s p = (take (length p) s = p)"

text \<open>\<^verbatim>\<open>p in s\<close> for strings: \<^verbatim>\<open>p\<close> occurs as a contiguous substring.\<close>

fun py_contains :: "string \<Rightarrow> string \<Rightarrow> bool" where
  "py_contains p [] = (p = [])"
| "py_contains p (c # cs) = (startswith (c # cs) p \<or> py_contains p cs)"

text \<open>\<^verbatim>\<open>s.replace(old, new)\<close> for a non-empty \<^verbatim>\<open>old\<close>: the occurrences are found from
  left to right and do not overlap.  The recursion runs on a counter that bounds the
  remaining length.\<close>

fun replace_aux :: "nat \<Rightarrow> string \<Rightarrow> string \<Rightarrow> string \<Rightarrow> string" where
  "replace_aux 0 old new s = s"
| "replace_aux (Suc n) old new s =
     (case s of
        [] \<Rightarrow> []
      | c # cs \<Rightarrow>
          if startswith s old then new @ replace_aux n old new (drop (length old) s)
          else c # replace_aux n old new cs)"

definition py_replace :: "string \<Rightarrow> string \<Rightarrow> string \<Rightarrow> string" where
  "py_replace old new s = replace_aux (length s) old new s"

subsection \<open>Integers and floats from text\<close>

definition digit_val :: "char \<Rightarrow> nat" where
  "digit_val c = (case map_of (zip ''0123456789'' [0, 1, 2, 3, 4, 5, 6, 7, 8, 9]) c of
                    Some d \<Rightarrow> d | None \<Rightarrow> 0)"

definition digits_val :: "string \<Rightarrow> nat" where
  "digits_val s = foldl (\<lambda>a c. 10 * a + digit_val c) 0 s"

text \<open>The body of an integer literal accepted by \<^verbatim>\<open>int(s)\<close>: digits, with single
  underscores allowed between digits.\<close>

fun int_body_ok :: "string \<Rightarrow> bool" where
  "int_body_ok [] = False"
| "int_body_ok [c] = is_digit c"
| "int_body_ok (c # d # r) =
     (is_digit c \<and> (if d = CHR ''_'' then int_body_ok r else int_body_ok (d # r)))"

text \<open>\<^verbatim>\<open>int(s)\<close> for a string: surrounding whitespace is ignored, one sign is allowed,
  anything else raises \<^verbatim>\<open>ValueError\<close>.\<close>

definition py_int :: "string \<Rightarrow> py_error + int" where
  "py_int s =
     (let t = py_strip s;
          neg = (t \<noteq> [] \<and> hd t = CHR ''-'');
          body = (if t \<noteq> [] \<and> (hd t = CHR ''-'' \<or> hd t = CHR ''+'') then tl t else t)
      in if int_body_ok body
         then Inr ((if neg then - 1 else 1) * int (digits_val (filter (\<lambda>c. c \<noteq> CHR ''_'') body)))
         else Inl ValueError)"

text \<open>\<^verbatim>\<open>int(m.group(1))\<close>: a group that did not take part in the match is \<^verbatim>\<open>None\<close>,
  on which \<^verbatim>\<open>int\<close> raises \<^verbatim>\<open>TypeError\<close>.\<close>

definition py_int_opt :: "string option \<Rightarrow> py_error + int" where
  "py_int_opt g = (case g of None \<Rightarrow> Inl TypeError | Some s \<Rightarrow> py_int s)"

text \<open>\<^verbatim>\<open>int(x)\<close> for a float: truncation towards zero.\<close>

definition py_trunc :: "rat \<Rightarrow> int" where
  "py_trunc r = (if 0 \<le> r then \<lfloor>r\<rfloor> else \<lceil>r\<rceil>)"

text \<open>\<^verbatim>\<open>int(x)\<close> for any float: an infinity raises \<^verbatim>\<open>OverflowError\<close>, NaN raises
  \<^verbatim>\<open>ValueError\<close>.\<close>

definition float_to_int :: "pyfloat \<Rightarrow> py_error + int" where
  "float_to_int f =
     (case f of
        Finite r \<Rightarrow> Inr (py_trunc r)
      | PosInf \<Rightarrow> Inl OverflowError
      | NegInf \<Rightarrow> Inl OverflowError
      | NaN \<Rightarrow> Inl ValueError)"

text \<open>\<^verbatim>\<open>str(n)\<close> for an integer.\<close>

fun str_nat :: "nat \<Rightarrow> string" where
  "str_nat n = (if n < 10 then [''0123456789'' ! n]
                else str_nat (n div 10) @ [''0123456789'' ! (n mod 10)])"

declare str_nat.simps [simp del]

definition str_int :: "int \<Rightarrow> string" where
  "str_int i = (if i < 0 then CHR ''-'' # str_nat (nat (- i)) else str_nat (nat i))"

text \<open>
  \<^verbatim>\<open>float(s)\<close>, restricted to the unsigned decimal literals \<^verbatim>\<open>d+\<close>, \<^verbatim>\<open>d+.\<close>, \<^verbatim>\<open>d+.d+\<close>
  and \<^verbatim>\<open>.d+\<close>; every other string raises \<^verbatim>\<open>ValueError\<close> here.  Python also accepts
  signs, exponents, underscores, surrounding whitespace and the words inf and nan; the
  strings that reach \<^verbatim>\<open>float\<close> in this program are either drawn from the class
  \<^verbatim>\<open>[\d\.]+\<close> or are one of the quantity words of the ingredient pattern, and on those
  this definition agrees with Python.
\<close>

definition py_float :: "string \<Rightarrow> py_error + rat" where
  "py_float s =
     (let ip = takeWhile is_digit s;
          r = dropWhile is_digit s;
          fp = (if r \<noteq> [] \<and> hd r = CHR ''.'' then tl r else [])
      in if (r = [] \<or> hd r = CHR ''.'') \<and> list_all is_digit fp \<and> (ip \<noteq> [] \<or> fp \<noteq> [])
         then Inr (of_nat (digits_val ip) + of_nat (digits_val fp) / of_nat (10 ^ length fp))
         else Inl ValueError)"

section \<open>Regular expressions as \<^verbatim>\<open>re\<close> matches them\<close>

text \<open>
  The patterns of the program are written in the abstract syntax below and run by a
  backtracking matcher that returns every way of matching in the order in which
  \<^verbatim>\<open>re\<close> tries them: the left alternative before the right one, one more iteration of a
  star before stopping.  The first element of the list is the match \<^verbatim>\<open>re\<close> reports.
  A matcher state is the position, the rest of the subject and the groups captured so
  far (the most recent capture of a group first).
\<close>

datatype rx =
    Eps
  | Cls "char \<Rightarrow> bool"
  | Seq rx rx
  | Alt rx rx
  | Star rx
  | Grp nat rx
  | Bol
  | Eol

type_synonym mstate = "nat \<times> string \<times> (nat \<times> string) list"

fun star_iter :: "nat \<Rightarrow> (mstate \<Rightarrow> mstate list) \<Rightarrow> mstate \<Rightarrow> mstate list" where
  "star_iter 0 f st = [st]"
| "star_iter (Suc n) f st =
     concat (map (star_iter n f)
               (filter (\<lambda>st'. length (fst (snd st')) < length (fst (snd st))) (f st))) @ [st]"

primrec rmatch :: "rx \<Rightarrow> mstate \<Rightarrow> mstate list" where
  "rmatch Eps = (\<lambda>st. [st])"
| "rmatch (Cls p) = (\<lambda>st. case fst (snd st) of
                               [] \<Rightarrow> []
                             | x # xs \<Rightarrow> if p x then [(Suc (fst st), xs, snd (snd st))] else [])"
| "rmatch (Seq a b) = (\<lambda>st. concat (map (rmatch b) (rmatch a st)))"
| "rmatch (Alt a b) = (\<lambda>st. rmatch a st @ rmatch b st)"
| "rmatch (Star a) = (\<lambda>st. star_iter (length (fst (snd st))) (rmatch a) st)"
| "rmatch (Grp n a) =
     (\<lambda>st. map (\<lambda>st'. (fst st', fst (snd st'),
                         (n, take (fst st' - fst st) (fst (snd st))) # snd (snd st')))
                (rmatch a st))"
| "rmatch Bol = (\<lambda>st. if fst st = 0 then [st] else [])"
| "rmatch Eol = (\<lambda>st. if fst (snd st) = [] \<or> fst (snd st) = [CHR 0x0A] then [st] else [])"

definition Chr :: "char \<Rightarrow> rx" where
  "Chr c = Cls (\<lambda>x. x = c)"

text \<open>A literal character under \<^verbatim>\<open>re.IGNORECASE\<close>.\<close>

definition ChrI :: "char \<Rightarrow> rx" where
  "ChrI c = Cls (\<lambda>x. lower_char x = lower_char c)"

definition Lit :: "string \<Rightarrow> rx" where
  "Lit s = foldr (\<lambda>c r. Seq (Chr c) r) s Eps"

definition LitI :: "string \<Rightarrow> rx" where
  "LitI s = foldr (\<lambda>c r. Seq (ChrI c) r) s Eps"

definition Plus :: "rx \<Rightarrow> rx" where
  "Plus r = Seq r (Star r)"

definition Opt :: "rx \<Rightarrow> rx" where
  "Opt r = Alt r Eps"

fun Alts :: "rx list \<Rightarrow> rx" where
  "Alts [] = Cls (\<lambda>c. False)"
| "Alts [r] = r"
| "Alts (r # rs) = Alt r (Alts rs)"

text \<open>A match object: where the match starts, where it ends, and its groups.\<close>

record rmatch_obj =
  m_start :: nat
  m_end :: nat
  m_groups :: "(nat \<times> string) list"

definition group :: "rmatch_obj \<Rightarrow> nat \<Rightarrow> string option" where
  "group m n = map_of (m_groups m) n"

text \<open>\<^verbatim>\<open>pattern.match(s)\<close>: a match that starts at position 0.\<close>

definition re_match :: "rx \<Rightarrow> string \<Rightarrow> rmatch_obj option" where
  "re_match r s =
     (case rmatch r (0, s, []) of
        [] \<Rightarrow> None
      | st # _ \<Rightarrow> Some \<lparr>m_start = 0, m_end = fst st, m_groups = snd (snd st)\<rparr>)"

text \<open>\<^verbatim>\<open>re.search(r, s)\<close>: the match at the leftmost position that has one.\<close>

fun search_from :: "rx \<Rightarrow> nat \<Rightarrow> string \<Rightarrow> rmatch_obj option" where
  "search_from r i [] =
     (case rmatch r (i, [], []) of
        [] \<Rightarrow> None
      | st # _ \<Rightarrow> Some \<lparr>m_start = i, m_end = fst st, m_groups = snd (snd st)\<rparr>)"
| "search_from r i (c # cs) =
     (case rmatch r (i, c # cs, []) of
        [] \<Rightarrow> search_from r (Suc i) cs
      | st # _ \<Rightarrow> Some \<lparr>m_start = i, m_end = fst st, m_groups = snd (snd st)\<rparr>)"

definition re_search :: "rx \<Rightarrow> string \<Rightarrow> rmatch_obj option" where
  "re_search r s = search_from r 0 s"

section \<open>The external libraries\<close>

text \<open>
  Two library behaviours are parameters of the model: the text that BeautifulSoup's lxml
  parser extracts from a fragment, \<^verbatim>\<open>BeautifulSoup(s, "lxml").get_text(separator=' ', strip=True)\<close>,
  and Python's \<^verbatim>\<open>str\<close> of a float, a list or a dict.
\<close>

record pylib =
  bs_get_text :: "string \<Rightarrow> string"
  py_repr :: "json \<Rightarrow> string"

text \<open>An instance for fragments without markup, used to run the model on examples: the
  parser returns the one text node, stripped.  None of the examples calls \<^verbatim>\<open>str\<close> on a
  float, a list or a dict.\<close>

definition plain_lib :: pylib where
  "plain_lib = \<lparr>bs_get_text = py_strip, py_repr = (\<lambda>v. [])\<rparr>"

definition py_str :: "pylib \<Rightarrow> json \<Rightarrow> string" where
  "py_str L v =
     (case v of
        JStr s \<Rightarrow> s
      | JInt i \<Rightarrow> str_int i
      | JBool b \<Rightarrow> (if b then ''True'' else ''False'')
      | JNull \<Rightarrow> ''None''
      | _ \<Rightarrow> py_repr L v)"

section \<open>utils.py\<close>

text \<open>\<^verbatim>\<open>clean_text\<close>: \<^verbatim>\<open>None\<close> stays \<^verbatim>\<open>None\<close>; anything else is turned into a string,
  passed through BeautifulSoup and has its whitespace runs collapsed to single spaces.\<close>

definition clean_text :: "pylib \<Rightarrow> json \<Rightarrow> string option" where
  "clean_text L v =
     (case v of
        JNull \<Rightarrow> None
      | _ \<Rightarrow> Some (py_join '' '' (py_split_ws (bs_get_text L (py_str L v)))))"

text \<open>The patterns of \<^verbatim>\<open>parse_duration_to_minutes\<close>:
  \<^verbatim>\<open>(\d+)H\<close>, \<^verbatim>\<open>(\d+)M\<close>, \<^verbatim>\<open>(\d+)S\<close>,
  \<^verbatim>\<open>(\d+)\s*(?:hour|hr)s?\<close>, \<^verbatim>\<open>(\d+)\s*(?:minute|min)s?\<close> and \<^verbatim>\<open>(\d+)\<close>.\<close>

definition rx_digits_then :: "char \<Rightarrow> rx" where
  "rx_digits_then c = Seq (Grp 1 (Plus (Cls is_digit))) (Chr c)"

definition rx_hour_text :: rx where
  "rx_hour_text =
     Seq (Grp 1 (Plus (Cls is_digit)))
       (Seq (Star (Cls is_space)) (Seq (Alt (Lit ''hour'') (Lit ''hr'')) (Opt (Chr CHR ''s''))))"

definition rx_minute_text :: rx where
  "rx_minute_text =
     Seq (Grp 1 (Plus (Cls is_digit)))
       (Seq (Star (Cls is_space)) (Seq (Alt (Lit ''minute'') (Lit ''min'')) (Opt (Chr CHR ''s''))))"

definition rx_first_int :: rx where
  "rx_first_int = Grp 1 (Plus (Cls is_digit))"

text \<open>The branch for ISO 8601 codes (\<^verbatim>\<open>cleaned_duration_str.startswith("PT")\<close>):
  \<^verbatim>\<open>total_minutes\<close> as lines 40 to 49 compute it, the condition
  \<^verbatim>\<open>hours_match or minutes_match or seconds_match\<close>, and the \<^verbatim>\<open>return\<close> of line 50.\<close>

definition iso_total :: "string \<Rightarrow> py_error + int" where
  "iso_total s =
     (let hours_match = re_search (rx_digits_then CHR ''H'') s;
          minutes_match = re_search (rx_digits_then CHR ''M'') s;
          seconds_match = re_search (rx_digits_then CHR ''S'') s
      in ebind (case hours_match of
                  None \<Rightarrow> Inr 0
                | Some m \<Rightarrow> ebind (py_int_opt (group m 1)) (\<lambda>h. Inr (h * 60))) (\<lambda>t1.
         ebind (case minutes_match of
                  None \<Rightarrow> Inr t1
                | Some m \<Rightarrow> ebind (py_int_opt (group m 1)) (\<lambda>mi. Inr (t1 + mi))) (\<lambda>t2.
         case seconds_match of
           None \<Rightarrow> Inr t2
         | Some m \<Rightarrow>
             if t2 = 0
             then ebind (py_int_opt (group m 1)) (\<lambda>sec. Inr (if sec \<ge> 30 then t2 + 1 else t2))
             else Inr t2)))"

definition has_iso_component :: "string \<Rightarrow> bool" where
  "has_iso_component s =
     (re_search (rx_digits_then CHR ''H'') s \<noteq> None
      \<or> re_search (rx_digits_then CHR ''M'') s \<noteq> None
      \<or> re_search (rx_digits_then CHR ''S'') s \<noteq> None)"

definition iso_duration :: "string \<Rightarrow> py_error + int option" where
  "iso_duration s =
     ebind (iso_total s) (\<lambda>total_minutes.
       Inr (if total_minutes > 0 then Some total_minutes
            else if \<not> has_iso_component s then None else Some 0))"

text \<open>The branch for free text such as \<^verbatim>\<open>"1 hour 30 minutes"\<close>:
  \<^verbatim>\<open>calculated_total_minutes\<close> as lines 55 to 72 compute it, and the \<^verbatim>\<open>return\<close> of line 73.\<close>

definition text_total :: "string \<Rightarrow> py_error + int" where
  "text_total s =
     (let duration_str_lower = py_lower s;
          hour_match = re_search rx_hour_text duration_str_lower;
          minute_match = re_search rx_minute_text duration_str_lower
      in ebind (case hour_match of
                  None \<Rightarrow> Inr 0
                | Some m \<Rightarrow> py_int_opt (group m 1)) (\<lambda>hours.
         ebind (case minute_match of
                  None \<Rightarrow> Inr 0
                | Some m \<Rightarrow> py_int_opt (group m 1)) (\<lambda>minutes0.
         ebind (if hour_match = None \<and> minute_match = None
                then (case re_search rx_first_int duration_str_lower of
                        None \<Rightarrow> Inr minutes0
                      | Some m \<Rightarrow> py_int_opt (group m 1))
                else Inr minutes0) (\<lambda>minutes.
         Inr (hours * 60 + minutes)))))"

definition text_duration :: "string \<Rightarrow> py_error + int option" where
  "text_duration s =
     ebind (text_total s) (\<lambda>calculated_total_minutes.
       Inr (if calculated_total_minutes > 0 then Some calculated_total_minutes else None))"

definition parse_duration_to_minutes :: "pylib \<Rightarrow> json \<Rightarrow> py_error + int option" where
  "parse_duration_to_minutes L duration_str =
     (if \<not> truthy duration_str then Inr None
      else case duration_str of
             JBool b \<Rightarrow> Inr (Some (if b then 1 else 0))
           | JInt i \<Rightarrow> Inr (Some i)
           | JFloat f \<Rightarrow> ebind (float_to_int f) (\<lambda>i. Inr (Some i))
           | _ \<Rightarrow>
               (case clean_text L (JStr (py_str L duration_str)) of
                  None \<Rightarrow> Inr None
                | Some cleaned_duration_str \<Rightarrow>
                    if cleaned_duration_str = [] then Inr None
                    else if startswith cleaned_duration_str ''PT''
                    then iso_duration cleaned_duration_str
                    else text_duration cleaned_duration_str))"

subsection \<open>BeautifulSoup elements\<close>

text \<open>
  An element (the parsed page itself is one) is modelled by what the program asks of it:
  its \<^verbatim>\<open>get_text()\<close>, its attributes, and the answers of \<^verbatim>\<open>select_one\<close> and \<^verbatim>\<open>select\<close>
  to a CSS selector, each of which may raise inside the selector library.
\<close>

datatype node =
  Node (node_text: string)
       (node_attrs: "(string \<times> string) list")
       (node_select_one: "string \<Rightarrow> py_error + node option")
       (node_select: "string \<Rightarrow> py_error + node list")

text \<open>An item of the lists that the parsers of \<^verbatim>\<open>utils.py\<close> walk: a BeautifulSoup
  element or a plain Python value.\<close>

datatype pyitem = PElem node | PVal json

text \<open>A cleaning function is any callable from a value to a value; \<^verbatim>\<open>None\<close> is passed
  where the caller wants none.\<close>

type_synonym cleaning = "json \<Rightarrow> py_error + json"

definition clean_text_fn :: "pylib \<Rightarrow> cleaning" where
  "clean_text_fn L = (\<lambda>v. Inr (case clean_text L v of None \<Rightarrow> JNull | Some s \<Rightarrow> JStr s))"

text \<open>Calling \<^verbatim>\<open>cleaning_func(x)\<close>: calling \<^verbatim>\<open>None\<close> raises \<^verbatim>\<open>TypeError\<close>.\<close>

definition call_cleaning :: "cleaning option \<Rightarrow> json \<Rightarrow> py_error + json" where
  "call_cleaning cleaning_func v = (case cleaning_func of None \<Rightarrow> Inl TypeError | Some f \<Rightarrow> f v)"

text \<open>The text of an item: \<^verbatim>\<open>item.get_text()\<close> for an element, the item itself for a
  string, and nothing for anything else (the loops \<^verbatim>\<open>continue\<close>).\<close>

definition item_raw_text :: "pyitem \<Rightarrow> string option" where
  "item_raw_text item =
     (case item of
        PElem el \<Rightarrow> Some (node_text el)
      | PVal (JStr s) \<Rightarrow> Some s
      | PVal _ \<Rightarrow> None)"

subsection \<open>\<^verbatim>\<open>re.split\<close> and \<^verbatim>\<open>re.sub\<close>\<close>

text \<open>
  Both walk the subject from left to right over the non-overlapping matches.  The
  patterns they are used with here have no anchors and never match the empty string;
  the counter bounds the number of matches by the length of the subject.
\<close>

fun re_split_aux :: "nat \<Rightarrow> rx \<Rightarrow> string \<Rightarrow> string list" where
  "re_split_aux 0 r s = [s]"
| "re_split_aux (Suc n) r s =
     (case search_from r 0 s of
        None \<Rightarrow> [s]
      | Some m \<Rightarrow>
          if m_end m \<le> m_start m then [s]
          else take (m_start m) s # re_split_aux n r (drop (m_end m) s))"

definition re_split :: "rx \<Rightarrow> string \<Rightarrow> string list" where
  "re_split r s = re_split_aux (length s) r s"

fun re_remove_aux :: "nat \<Rightarrow> rx \<Rightarrow> string \<Rightarrow> string" where
  "re_remove_aux 0 r s = s"
| "re_remove_aux (Suc n) r s =
     (case search_from r 0 s of
        None \<Rightarrow> s
      | Some m \<Rightarrow>
          if m_end m \<le> m_start m then s
          else take (m_start m) s @ re_remove_aux n r (drop (m_end m) s))"

text \<open>\<^verbatim>\<open>re.sub(r, '', s)\<close>.\<close>

definition re_remove :: "rx \<Rightarrow> string \<Rightarrow> string" where
  "re_remove r s = re_remove_aux (length s) r s"

subsection \<open>\<^verbatim>\<open>extract_allergens_from_text\<close>\<close>

text \<open>The pattern \<^verbatim>\<open>\((?:Contains|Allergens|Allergen Information):\s*([^)]+)\)\<close> under
  \<^verbatim>\<open>re.IGNORECASE\<close>, and the separator pattern \<^verbatim>\<open>,\s*|\s+and\s+\<close>.\<close>

definition rx_allergen_header :: rx where
  "rx_allergen_header = Alts [LitI ''Contains'', LitI ''Allergens'', LitI ''Allergen Information'']"

definition rx_allergen :: rx where
  "rx_allergen =
     Seq (Chr CHR ''('') (Seq rx_allergen_header (Seq (Chr CHR '':'') (Seq (Star (Cls is_space))
       (Seq (Grp 1 (Plus (Cls (\<lambda>c. c \<noteq> CHR '')'')))) (Chr CHR '')'')))))"

definition rx_allergen_sep :: rx where
  "rx_allergen_sep =
     Alt (Seq (Chr CHR '','') (Star (Cls is_space)))
         (Seq (Plus (Cls is_space)) (Seq (Lit ''and'') (Plus (Cls is_space))))"

definition py_capitalize :: "string \<Rightarrow> string" where
  "py_capitalize s = (case s of [] \<Rightarrow> [] | c # cs \<Rightarrow> upper_char c # map lower_char cs)"

text \<open>The result is \<^verbatim>\<open>list(allergens)\<close> of a set, whose order Python leaves open; the
  model lists the allergens in the order of their first mention.  Group 1 takes part
  in every match of the pattern.\<close>

definition extract_allergens_from_text :: "json \<Rightarrow> string list" where
  "extract_allergens_from_text text =
     (case text of
        JStr s \<Rightarrow>
          if s = [] then []
          else (case re_search rx_allergen s of
                  None \<Rightarrow> []
                | Some m \<Rightarrow>
                    (case group m 1 of
                       None \<Rightarrow> []
                     | Some allergen_string \<Rightarrow>
                         remdups (filter (\<lambda>a. a \<noteq> [])
                           (map (\<lambda>allergen. py_capitalize (py_lower
                                   (py_rstrip_char CHR ''.'' (py_strip allergen))))
                                (re_split rx_allergen_sep allergen_string)))))
      | _ \<Rightarrow> [])"

subsection \<open>\<^verbatim>\<open>parse_ingredient_strings_list\<close>\<close>

datatype quantity = QInt int | QFloat rat | QStr string

record ingredient =
  ing_name :: "string option"
  ing_quantity :: "quantity option"
  ing_unit :: "string option"
  ing_full_text :: string
  ing_allergens_in_item :: "string list"

text \<open>The pattern of an ingredient line, compiled with \<^verbatim>\<open>re.IGNORECASE\<close>:
  \<^verbatim>\<open>^\s*(?P<quantity>[\d\.\/]+(?:[\s-]\d\/\d)?|\d+|one|...|to taste)\s*(?P<unit>thumb|...|leaves)?\s*(?P<name>.+)\<close>.
  The groups quantity, unit and name are the groups 1, 2 and 3.\<close>

definition rx_quantity :: rx where
  "rx_quantity =
     Alts ([Seq (Plus (Cls (\<lambda>c. is_digit c \<or> c = CHR ''.'' \<or> c = CHR ''/'')))
              (Opt (Seq (Cls (\<lambda>c. is_space c \<or> c = CHR ''-''))
                     (Seq (Cls is_digit) (Seq (Chr CHR ''/'') (Cls is_digit))))),
            Plus (Cls is_digit)]
           @ map LitI [''one'', ''two'', ''three'', ''four'', ''five'', ''six'', ''seven'',
                       ''eight'', ''nine'', ''ten'', ''a'', ''an'', ''some'']
           @ [Seq (LitI ''pinch'') (Opt (LitI ''es'')), Seq (LitI ''dash'') (Opt (LitI ''es''))]
           @ map LitI [''a few'', ''several'', ''to taste''])"

definition rx_unit :: rx where
  "rx_unit =
     Alts (map LitI
       [''thumb'', ''clove'', ''unit'', ''cup'', ''ounce'', ''oz'', ''teaspoon'', ''tsp'',
        ''tablespoon'', ''tbsp'', ''tb'', ''gram'', ''g'', ''kg'', ''ml'', ''l'', ''pinch'',
        ''can'', ''cans'', ''stalk'', ''head'', ''bunch'', ''slice'', ''slices'', ''packet'',
        ''pack'', ''box'', ''container'', ''bottle'', ''piece'', ''lb'', ''pound'', ''pounds'',
        ''qt'', ''quart'', ''pt'', ''pint'', ''gallon'', ''gal'', ''drop'', ''dashes'',
        ''leaves''])"

definition ingredient_pattern :: rx where
  "ingredient_pattern =
     Seq Bol (Seq (Star (Cls is_space)) (Seq (Grp 1 rx_quantity) (Seq (Star (Cls is_space))
       (Seq (Opt (Grp 2 rx_unit)) (Seq (Star (Cls is_space))
         (Grp 3 (Plus (Cls (\<lambda>c. c \<noteq> CHR 0x0A)))))))))"

definition common_units_check :: "string list" where
  "common_units_check =
     [''thumb'', ''clove'', ''unit'', ''lime'', ''scallions'', ''garlic'', ''ginger'']"

text \<open>Lines 139 to 160: the match and the reclassification of the first word of the
  name.  The result is \<^verbatim>\<open>(quantity_str, unit_str, name_str)\<close>.\<close>

definition decompose_line :: "string \<Rightarrow> py_error + (string option \<times> string option \<times> string)" where
  "decompose_line full_text =
     (case re_match ingredient_pattern full_text of
        None \<Rightarrow> Inr (None, None, full_text)
      | Some m \<Rightarrow>
          (let quantity_str = group m 1; unit_str = group m 2 in
           case group m 3 of
             None \<Rightarrow> Inl AttributeError
           | Some nm \<Rightarrow>
               (let name_str = py_rstrip_char CHR '','' (py_strip nm);
                    has_quantity = (quantity_str \<noteq> None \<and> quantity_str \<noteq> Some [])
                in if unit_str = None \<and> has_quantity
                      \<and> \<not> list_ex is_digit (takeWhile (\<lambda>c. c \<noteq> CHR '' '') name_str)
                   then Inr (quantity_str, unit_str, name_str)
                   else if unit_str = None \<and> has_quantity
                   then (case py_split_char1 CHR '' '' name_str of
                           [p0, p1] \<Rightarrow>
                             if py_lower p0 \<in> set common_units_check
                             then Inr (quantity_str, Some p0, p1)
                             else Inr (quantity_str, unit_str, name_str)
                         | [p0] \<Rightarrow>
                             if py_lower p0 \<in> set common_units_check
                             then Inr (quantity_str, Some p0, [])
                             else Inr (quantity_str, unit_str, name_str)
                         | _ \<Rightarrow> Inr (quantity_str, unit_str, name_str))
                   else Inr (quantity_str, unit_str, name_str))))"

definition qty_word_map :: "(string \<times> int) list" where
  "qty_word_map =
     [(''a'', 1), (''an'', 1), (''one'', 1), (''two'', 2), (''three'', 3), (''four'', 4),
      (''five'', 5), (''six'', 6), (''seven'', 7), (''eight'', 8), (''nine'', 9), (''ten'', 10)]"

text \<open>Python list indexing, with negative indices counted from the end.\<close>

definition py_index :: "'a list \<Rightarrow> int \<Rightarrow> py_error + 'a" where
  "py_index xs i =
     (let n = int (length xs) in
      if 0 \<le> i \<and> i < n then Inr (xs ! nat i)
      else if i < 0 \<and> - n \<le> i then Inr (xs ! nat (n + i))
      else Inl IndexError)"

text \<open>\<^verbatim>\<open>num, den = map(int, parts)\<close>: fewer or more than two parts, or a part that is
  no integer, raise \<^verbatim>\<open>ValueError\<close>.\<close>

definition unpack_two_ints :: "string list \<Rightarrow> py_error + (int \<times> int)" where
  "unpack_two_ints parts =
     (case parts of
        [a, b] \<Rightarrow> ebind (py_int a) (\<lambda>num. ebind (py_int b) (\<lambda>den. Inr (num, den)))
      | _ \<Rightarrow> Inl ValueError)"

text \<open>\<^verbatim>\<open>num / den\<close> on integers.\<close>

definition py_truediv :: "int \<Rightarrow> int \<Rightarrow> py_error + rat" where
  "py_truediv num den = (if den = 0 then Inl ZeroDivisionError else Inr (of_int num / of_int den))"

text \<open>The body of the \<^verbatim>\<open>try\<close> of lines 168 to 179.\<close>

definition quantity_number :: "string \<Rightarrow> py_error + quantity" where
  "quantity_number quantity_str =
     (if CHR ''/'' \<in> set quantity_str
      then (if CHR ''-'' \<in> set quantity_str \<or> CHR '' '' \<in> set quantity_str
            then (let parts = re_split (Alt (Cls is_space) (Chr CHR ''-'')) quantity_str
                  in ebind (py_index parts 0) (\<lambda>p0.
                     ebind (py_int p0) (\<lambda>whole.
                     ebind (py_index parts 1) (\<lambda>p1.
                     ebind (unpack_two_ints (py_split_char CHR ''/'' p1)) (\<lambda>nd.
                     ebind (py_truediv (fst nd) (snd nd)) (\<lambda>q.
                     Inr (QFloat (of_int whole + q))))))))
            else ebind (unpack_two_ints (py_split_char CHR ''/'' quantity_str)) (\<lambda>nd.
                 ebind (py_truediv (fst nd) (snd nd)) (\<lambda>q. Inr (QFloat q))))
      else ebind (py_float quantity_str) (\<lambda>f. Inr (QFloat f)))"

text \<open>Lines 163 to 183: only \<^verbatim>\<open>ValueError\<close> is caught.\<close>

definition convert_quantity :: "string option \<Rightarrow> py_error + quantity option" where
  "convert_quantity quantity_str =
     (case quantity_str of
        None \<Rightarrow> Inr None
      | Some q \<Rightarrow>
          if q = [] then Inr None
          else (case map_of qty_word_map (py_lower q) of
                  Some n \<Rightarrow> Inr (Some (QInt n))
                | None \<Rightarrow>
                    (case quantity_number q of
                       Inr v \<Rightarrow> Inr (Some v)
                     | Inl ValueError \<Rightarrow> Inr (Some (QStr q))
                     | Inl e \<Rightarrow> Inl e)))"

text \<open>The pattern removed from the name:
  \<^verbatim>\<open>\s*\((?:Contains|Allergens|Allergen Information):\s*[^)]+\)\<close> under \<^verbatim>\<open>re.IGNORECASE\<close>.\<close>

definition rx_allergen_in_name :: rx where
  "rx_allergen_in_name =
     Seq (Star (Cls is_space)) (Seq (Chr CHR ''('') (Seq rx_allergen_header (Seq (Chr CHR '':'')
       (Seq (Star (Cls is_space)) (Seq (Plus (Cls (\<lambda>c. c \<noteq> CHR '')''))) (Chr CHR '')''))))))"

text \<open>One turn of the loop: \<^verbatim>\<open>None\<close> is \<^verbatim>\<open>continue\<close>, an exception leaves the function.\<close>

definition parse_ingredient_item :: "pylib \<Rightarrow> cleaning option \<Rightarrow> pyitem \<Rightarrow> py_error + ingredient option" where
  "parse_ingredient_item L cleaning_func item =
     (case item_raw_text item of
        None \<Rightarrow> Inr None
      | Some full_text_raw \<Rightarrow>
          ebind (call_cleaning cleaning_func (JStr full_text_raw)) (\<lambda>cleaned.
          if \<not> truthy cleaned then Inr None
          else (case cleaned of
                  JStr full_text \<Rightarrow>
                    (let item_allergens = extract_allergens_from_text (JStr full_text_raw) in
                     ebind (decompose_line full_text) (\<lambda>(quantity_str, unit_str, name_str0).
                     ebind (convert_quantity quantity_str) (\<lambda>quantity.
                     let name_str = (if name_str0 \<noteq> [] \<and> item_allergens \<noteq> []
                                     then py_strip (re_remove rx_allergen_in_name name_str0)
                                     else name_str0)
                     in Inr (Some \<lparr>ing_name = (if name_str \<noteq> [] then clean_text L (JStr name_str) else None),
                                    ing_quantity = quantity,
                                    ing_unit = (case unit_str of
                                                  None \<Rightarrow> None
                                                | Some u \<Rightarrow> if u \<noteq> [] then clean_text L (JStr u) else None),
                                    ing_full_text = full_text,
                                    ing_allergens_in_item = item_allergens\<rparr>))))
                | _ \<Rightarrow> Inl TypeError)))"

fun parse_ingredient_loop :: "pylib \<Rightarrow> cleaning option \<Rightarrow> pyitem list \<Rightarrow> py_error + ingredient list" where
  "parse_ingredient_loop L cleaning_func [] = Inr []"
| "parse_ingredient_loop L cleaning_func (item # items) =
     ebind (parse_ingredient_item L cleaning_func item) (\<lambda>r.
     ebind (parse_ingredient_loop L cleaning_func items) (\<lambda>parsed.
     Inr (case r of None \<Rightarrow> parsed | Some i \<Rightarrow> i # parsed)))"

definition parse_ingredient_strings_list ::
  "pylib \<Rightarrow> pyitem list \<Rightarrow> cleaning option \<Rightarrow> py_error + (ingredient list \<times> string list)" where
  "parse_ingredient_strings_list L ingredient_elements_or_strings cleaning_func =
     (if ingredient_elements_or_strings = [] then Inr ([], [])
      else ebind (parse_ingredient_loop L cleaning_func ingredient_elements_or_strings)
             (\<lambda>parsed_ingredients.
                Inr (parsed_ingredients,
                     remdups (concat (map ing_allergens_in_item parsed_ingredients)))))"

subsection \<open>\<^verbatim>\<open>parse_step_strings_list\<close>\<close>

fun parse_step_loop :: "cleaning option \<Rightarrow> pyitem list \<Rightarrow> py_error + json list" where
  "parse_step_loop cleaning_func [] = Inr []"
| "parse_step_loop cleaning_func (item # items) =
     (case item_raw_text item of
        None \<Rightarrow> parse_step_loop cleaning_func items
      | Some raw \<Rightarrow>
          ebind (call_cleaning cleaning_func (JStr raw)) (\<lambda>text.
          ebind (parse_step_loop cleaning_func items) (\<lambda>parsed_steps.
          Inr (if truthy text then text # parsed_steps else parsed_steps))))"

definition parse_step_strings_list :: "pyitem list \<Rightarrow> cleaning option \<Rightarrow> py_error + json" where
  "parse_step_strings_list step_elements_or_strings cleaning_func =
     (if step_elements_or_strings = [] then Inr (JList [])
      else ebind (parse_step_loop cleaning_func step_elements_or_strings) (\<lambda>xs. Inr (JList xs)))"

section \<open>recipe\_selectors.py\<close>

text \<open>A presentation strategy is a dict with the keys \<^verbatim>\<open>type\<close>, \<^verbatim>\<open>selector\<close> and,
  optionally, \<^verbatim>\<open>attribute_name\<close>; subscripting a dict by a key it lacks raises
  \<^verbatim>\<open>KeyError\<close>.\<close>

record strategy =
  stype :: "string option"
  selector :: "string option"
  attribute_name :: "string option"

definition css :: "string \<Rightarrow> strategy" where
  "css sel = \<lparr>stype = Some ''css'', selector = Some sel, attribute_name = None\<rparr>"

definition css_attr :: "string \<Rightarrow> string \<Rightarrow> strategy" where
  "css_attr sel a = \<lparr>stype = Some ''css'', selector = Some sel, attribute_name = Some a\<rparr>"

definition meta_attr :: "string \<Rightarrow> string \<Rightarrow> strategy" where
  "meta_attr sel a = \<lparr>stype = Some ''meta'', selector = Some sel, attribute_name = Some a\<rparr>"

definition css_list :: "string \<Rightarrow> strategy" where
  "css_list sel = \<lparr>stype = Some ''css_list'', selector = Some sel, attribute_name = None\<rparr>"

text \<open>A segment of an embedded-data path: a mapping key or a sequence index.\<close>

datatype pkey = KStr string | KInt int

record selector_config =
  json_ld_path :: "pkey list option"
  css_selectors :: "strategy list option"
  css_selectors_parent :: "string option"
  css_fields :: "(string \<times> strategy) list option"

text \<open>\<^verbatim>\<open>SELECTORS.get(field_key, {})\<close> for a key that the table lacks.\<close>

definition empty_config :: selector_config where
  "empty_config = \<lparr>json_ld_path = None, css_selectors = None, css_selectors_parent = None,
                     css_fields = None\<rparr>"

definition field_config :: "pkey list \<Rightarrow> strategy list \<Rightarrow> selector_config" where
  "field_config p cs = \<lparr>json_ld_path = Some p, css_selectors = Some cs,
                         css_selectors_parent = None, css_fields = None\<rparr>"

definition nutrition_step :: "string \<Rightarrow> strategy" where
  "nutrition_step label =
     css (''div[data-test-id='nutrition-step']:contains('' @ [CHR 0x27] @ label @ [CHR 0x27]
          @ '') span:last-child'')"

text \<open>The table \<^verbatim>\<open>SELECTORS\<close>.  The entries \<^verbatim>\<open>json_ld_script_selector\<close> (read only by
  \<^verbatim>\<open>get_json_ld_data\<close>) and \<^verbatim>\<open>id_in_url_pattern\<close> of \<^verbatim>\<open>external_id\<close> carry none of the
  four keys that \<^verbatim>\<open>get_value\<close> and the nutrition fallback read.\<close>

definition SELECTORS :: "(string \<times> selector_config) list" where
  "SELECTORS =
     [(''json_ld_script_selector'', empty_config),
      (''external_id'', field_config [KStr ''id'']
         [meta_attr ''meta[name='page_id']'' ''content'']),
      (''name'', field_config [KStr ''name'']
         [css ''h1[data-test-id='recipe-name']'',
          css ''h1[itemprop='name']'',
          css ''h1'',
          meta_attr ''meta[property='og:title']'' ''content'']),
      (''description'', field_config [KStr ''description'']
         [css ''span[data-test-id='recipe-description']'',
          css ''div[data-test-id='recipe-description'] p'',
          meta_attr ''meta[name='description']'' ''content'']),
      (''prep_time_minutes'', field_config [KStr ''prepTime'']
         [css_attr ''*[itemprop='prepTime']'' ''content'',
          css ''div[data-test-id='recipe-metadata-item-prep-time'] span'']),
      (''cook_time_minutes'', field_config [KStr ''cookTime'']
         [css_attr ''*[itemprop='cookTime']'' ''content'',
          css ''div[data-test-id='recipe-metadata-item-cook-time'] span'']),
      (''total_time_minutes'', field_config [KStr ''totalTime'']
         [css_attr ''*[itemprop='totalTime']'' ''content'',
          css ''div[data-test-id='recipe-description-meta'] div:nth-of-type(1) span:nth-of-type(2)'',
          css ''span:contains('Total Time') + span'']),
      (''servings'', field_config [KStr ''recipeYield'']
         [css ''button[data-test-id='yield-select-button-yield'] span'',
          css ''span[data-test-id='recipe-yield']'',
          css ''*[itemprop='recipeYield']'']),
      (''image_url'', field_config [KStr ''image'']
         [meta_attr ''meta[property='og:image']'' ''content'',
          css_attr ''img[data-test-id='recipe-hero-image']'' ''src'']),
      (''ingredients'', field_config [KStr ''recipeIngredient'']
         [css_list ''div[data-test-id='ingredient-item-shipped'] div[data-test-id='ingredient-item-name']'',
          css_list ''div[data-test-id='ingredient-item-not-shipped'] div[data-test-id='ingredient-item-name']'',
          css_list ''*[itemprop='recipeIngredient']'']),
      (''steps'', field_config [KStr ''recipeInstructions'']
         [css_list ''div[data-test-id='instruction-step-description']'']),
      (''nutrition_info'',
         \<lparr>json_ld_path = Some [KStr ''nutrition''],
          css_selectors = None,
          css_selectors_parent = Some ''div[data-test-id='nutritions']'',
          css_fields = Some
            [(''calories'', nutrition_step ''Calories''),
             (''fat'', nutrition_step ''Fat''),
             (''saturated_fat'', nutrition_step ''Saturated Fat''),
             (''carbohydrate'', nutrition_step ''Carbohydrate''),
             (''sugar'', nutrition_step ''Sugar''),
             (''protein'', nutrition_step ''Protein''),
             (''fiber'', nutrition_step ''Dietary Fiber''),
             (''cholesterol'', nutrition_step ''Cholesterol''),
             (''sodium'', nutrition_step ''Sodium'')]\<rparr>),
      (''tags_array'', field_config [KStr ''keywords'']
         [css_list ''div[data-test-id='recipe-tags-container'] a[data-test-id='tag-link']'']),
      (''cuisine'', field_config [KStr ''recipeCuisine''] []),
      (''category'', field_config [KStr ''recipeCategory''] []),
      (''date_published'', field_config [KStr ''datePublished'']
         [meta_attr ''meta[property='article:published_time']'' ''content'']),
      (''prep_time_iso'', empty_config\<lparr>json_ld_path := Some [KStr ''prepTime'']\<rparr>),
      (''cook_time_iso'', empty_config\<lparr>json_ld_path := Some [KStr ''cookTime'']\<rparr>),
      (''total_time_iso'', empty_config\<lparr>json_ld_path := Some [KStr ''totalTime'']\<rparr>)]"

definition selectors_get :: "string \<Rightarrow> selector_config" where
  "selectors_get field_key =
     (case map_of SELECTORS field_key of Some c \<Rightarrow> c | None \<Rightarrow> empty_config)"

section \<open>scraper.py\<close>

subsection \<open>\<^verbatim>\<open>extract_from_json_ld\<close>\<close>

text \<open>A dict is an association list with distinct keys, as \<^verbatim>\<open>json.loads\<close> leaves it;
  its keys are strings, so an integer segment is never \<^verbatim>\<open>in\<close> a dict.\<close>

fun walk_path :: "json \<Rightarrow> pkey list \<Rightarrow> py_error + json" where
  "walk_path current_data [] = Inr current_data"
| "walk_path current_data (key # path) =
     (case current_data of
        JDict kvs \<Rightarrow>
          (case key of
             KStr k \<Rightarrow> (case map_of kvs k of
                          Some v \<Rightarrow> walk_path v path
                        | None \<Rightarrow> Inr JNull)
           | KInt i \<Rightarrow> Inr JNull)
      | JList xs \<Rightarrow>
          (case key of
             KInt i \<Rightarrow>
               if i < int (length xs)
               then (case py_index xs i of
                       Inl e \<Rightarrow> Inl e
                     | Inr v \<Rightarrow> walk_path v path)
               else Inr JNull
           | KStr k \<Rightarrow> Inr JNull)
      | _ \<Rightarrow> Inr JNull)"

definition extract_from_json_ld :: "json \<Rightarrow> pkey list \<Rightarrow> py_error + json" where
  "extract_from_json_ld json_ld_data path =
     (if \<not> truthy json_ld_data \<or> path = [] then Inr JNull else walk_path json_ld_data path)"

subsection \<open>\<^verbatim>\<open>extract_data_point\<close> and \<^verbatim>\<open>extract_list_data\<close>\<close>

text \<open>\<^verbatim>\<open>cleaning_func(value) if value and cleaning_func else (value.strip() if value else None)\<close>.\<close>

definition finish_value :: "string option \<Rightarrow> cleaning option \<Rightarrow> py_error + json" where
  "finish_value v cleaning_func =
     (case v of
        None \<Rightarrow> Inr JNull
      | Some s \<Rightarrow>
          if s = [] then Inr JNull
          else (case cleaning_func of
                  Some f \<Rightarrow> f (JStr s)
                | None \<Rightarrow> Inr (JStr (py_strip s))))"

text \<open>\<^verbatim>\<open>strategy.get('attribute_name')\<close> as a condition.\<close>

definition has_attribute_name :: "strategy \<Rightarrow> bool" where
  "has_attribute_name s = (attribute_name s \<noteq> None \<and> attribute_name s \<noteq> Some [])"

definition element_get :: "node \<Rightarrow> string option \<Rightarrow> string option" where
  "element_get el a = (case a of None \<Rightarrow> None | Some k \<Rightarrow> map_of (node_attrs el) k)"

text \<open>
  The body of the \<^verbatim>\<open>try\<close> for one strategy.  \<^verbatim>\<open>Inl e\<close>: the body raised \<^verbatim>\<open>e\<close>;
  \<^verbatim>\<open>Inr None\<close>: the body ended without a \<^verbatim>\<open>return\<close>; \<^verbatim>\<open>Inr (Some v)\<close>: it returned \<^verbatim>\<open>v\<close>.
\<close>

definition eval_strategy :: "node \<Rightarrow> strategy \<Rightarrow> cleaning option \<Rightarrow> py_error + json option" where
  "eval_strategy soup s cleaning_func =
     (case stype s of
        None \<Rightarrow> Inl KeyError
      | Some t \<Rightarrow>
          if t = ''css''
          then (case selector s of
                  None \<Rightarrow> Inl KeyError
                | Some sel \<Rightarrow>
                    ebind (node_select_one soup sel) (\<lambda>element.
                      case element of
                        None \<Rightarrow> Inr None
                      | Some el \<Rightarrow>
                          ebind (finish_value
                                   (if has_attribute_name s then element_get el (attribute_name s)
                                    else Some (node_text el))
                                   cleaning_func)
                                (\<lambda>v. Inr (Some v))))
          else if t = ''meta''
          then (case selector s of
                  None \<Rightarrow> Inl KeyError
                | Some sel \<Rightarrow>
                    ebind (node_select_one soup sel) (\<lambda>element.
                      case element of
                        None \<Rightarrow> Inr None
                      | Some el \<Rightarrow>
                          if has_attribute_name s
                          then ebind (finish_value (element_get el (attribute_name s)) cleaning_func)
                                     (\<lambda>v. Inr (Some v))
                          else Inr None))
          else Inr None)"

text \<open>The loop: \<^verbatim>\<open>except Exception: continue\<close>.  An empty or missing strategy list
  gives \<^verbatim>\<open>None\<close>.\<close>

fun extract_data_point :: "node \<Rightarrow> strategy list \<Rightarrow> cleaning option \<Rightarrow> json" where
  "extract_data_point soup [] cleaning_func = JNull"
| "extract_data_point soup (s # strategies) cleaning_func =
     (case eval_strategy soup s cleaning_func of
        Inl e \<Rightarrow> extract_data_point soup strategies cleaning_func
      | Inr None \<Rightarrow> extract_data_point soup strategies cleaning_func
      | Inr (Some v) \<Rightarrow> v)"

definition eval_list_strategy :: "node \<Rightarrow> strategy \<Rightarrow> py_error + node list option" where
  "eval_list_strategy soup s =
     (case stype s of
        None \<Rightarrow> Inl KeyError
      | Some t \<Rightarrow>
          if t = ''css_list''
          then (case selector s of
                  None \<Rightarrow> Inl KeyError
                | Some sel \<Rightarrow>
                    ebind (node_select soup sel) (\<lambda>elements.
                      Inr (if elements \<noteq> [] then Some elements else None)))
          else Inr None)"

fun extract_list_data :: "node \<Rightarrow> strategy list \<Rightarrow> node list" where
  "extract_list_data soup [] = []"
| "extract_list_data soup (s # strategies) =
     (case eval_list_strategy soup s of
        Inl e \<Rightarrow> extract_list_data soup strategies
      | Inr None \<Rightarrow> extract_list_data soup strategies
      | Inr (Some elements) \<Rightarrow> elements)"

subsection \<open>\<^verbatim>\<open>extract_nutrition_value\<close> and \<^verbatim>\<open>parse_servings_from_json\<close>\<close>

text \<open>The pattern \<^verbatim>\<open>([\d\.]+)\<close>.\<close>

definition rx_number :: rx where
  "rx_number = Grp 1 (Plus (Cls (\<lambda>c. is_digit c \<or> c = CHR ''.'')))"

definition py_float_opt :: "string option \<Rightarrow> py_error + rat" where
  "py_float_opt g = (case g of None \<Rightarrow> Inl TypeError | Some s \<Rightarrow> py_float s)"

definition extract_nutrition_value :: "pylib \<Rightarrow> json \<Rightarrow> py_error + rat option" where
  "extract_nutrition_value L value_str =
     (case value_str of
        JNull \<Rightarrow> Inr None
      | _ \<Rightarrow>
          (case re_search rx_number (py_lower (py_str L value_str)) of
             None \<Rightarrow> Inr None
           | Some m \<Rightarrow> ebind (py_float_opt (group m 1)) (\<lambda>f. Inr (Some f))))"

definition parse_servings_from_json :: "json \<Rightarrow> py_error + json" where
  "parse_servings_from_json yield_data =
     (case yield_data of
        JNull \<Rightarrow> Inr JNull
      | JBool b \<Rightarrow> Inr (JInt (if b then 1 else 0))
      | JInt i \<Rightarrow> Inr (JInt i)
      | JFloat f \<Rightarrow> ebind (float_to_int f) (\<lambda>i. Inr (JInt i))
      | JStr s \<Rightarrow>
          (case re_search (Grp 0 (Plus (Cls is_digit))) s of
             None \<Rightarrow> Inr JNull
           | Some m \<Rightarrow> ebind (py_int_opt (group m 0)) (\<lambda>i. Inr (JInt i)))
      | _ \<Rightarrow> Inr JNull)"

subsection \<open>\<^verbatim>\<open>get_value\<close>\<close>

fun emap :: "('a \<Rightarrow> py_error + 'b) \<Rightarrow> 'a list \<Rightarrow> py_error + 'b list" where
  "emap f [] = Inr []"
| "emap f (x # xs) = ebind (f x) (\<lambda>y. ebind (emap f xs) (\<lambda>ys. Inr (y # ys)))"

text \<open>Lines 151 to 158: what \<^verbatim>\<open>get_value\<close> returns once \<^verbatim>\<open>raw_json_value\<close> is not
  \<^verbatim>\<open>None\<close>.\<close>

definition value_from_json ::
  "pylib \<Rightarrow> json \<Rightarrow> cleaning option \<Rightarrow> bool \<Rightarrow> (json \<Rightarrow> py_error + json) option \<Rightarrow>
   (json \<Rightarrow> py_error + json) option \<Rightarrow> py_error + json" where
  "value_from_json L raw_json_value cleaning_func is_list json_list_item_processor specific_json_parser =
     (case specific_json_parser of
        Some parser \<Rightarrow> parser raw_json_value
      | None \<Rightarrow>
          if is_list
          then (case json_list_item_processor of
                  Some processor \<Rightarrow> processor raw_json_value
                | None \<Rightarrow>
                    (case raw_json_value of
                       JList items \<Rightarrow>
                         ebind (emap (\<lambda>item. case cleaning_func of
                                                Some f \<Rightarrow> f item
                                              | None \<Rightarrow> Inr item)
                                     (filter truthy items))
                               (\<lambda>xs. Inr (JList xs))
                     | _ \<Rightarrow> Inr (JList [])))
          else (case cleaning_func of
                  Some f \<Rightarrow>
                    (case raw_json_value of
                       JStr s \<Rightarrow> f (JStr (py_str L raw_json_value))
                     | JInt i \<Rightarrow> f (JStr (py_str L raw_json_value))
                     | JBool b \<Rightarrow> f (JStr (py_str L raw_json_value))
                     | JFloat r \<Rightarrow> f (JStr (py_str L raw_json_value))
                     | _ \<Rightarrow> Inr raw_json_value)
                | None \<Rightarrow> Inr raw_json_value))"

text \<open>Lines 160 to 171: the presentation fallback.\<close>

definition value_from_css ::
  "node \<Rightarrow> selector_config \<Rightarrow> cleaning option \<Rightarrow> bool \<Rightarrow>
   (pyitem list \<Rightarrow> cleaning option \<Rightarrow> py_error + json) option \<Rightarrow> py_error + json" where
  "value_from_css soup selector_config cleaning_func is_list css_list_item_processor =
     (case css_selectors selector_config of
        None \<Rightarrow> Inr JNull
      | Some css_strategies \<Rightarrow>
          if css_strategies = [] then Inr JNull
          else if is_list
          then (let elements = extract_list_data soup css_strategies in
                case css_list_item_processor of
                  Some processor \<Rightarrow>
                    if elements \<noteq> [] then processor (map PElem elements) cleaning_func
                    else Inr (JList [])
                | None \<Rightarrow> Inr (JList []))
          else Inr (extract_data_point soup css_strategies cleaning_func))"

definition get_value ::
  "pylib \<Rightarrow> json \<Rightarrow> node \<Rightarrow> string \<Rightarrow> cleaning option \<Rightarrow> bool \<Rightarrow>
   (json \<Rightarrow> py_error + json) option \<Rightarrow>
   (pyitem list \<Rightarrow> cleaning option \<Rightarrow> py_error + json) option \<Rightarrow>
   (json \<Rightarrow> py_error + json) option \<Rightarrow> py_error + json" where
  "get_value L json_ld_data soup field_key cleaning_func is_list json_list_item_processor
     css_list_item_processor specific_json_parser =
     (let selector_config = selectors_get field_key in
      ebind (case json_ld_path selector_config of
               None \<Rightarrow> Inr JNull
             | Some p \<Rightarrow>
                 if truthy json_ld_data \<and> p \<noteq> [] then extract_from_json_ld json_ld_data p
                 else Inr JNull)
        (\<lambda>raw_json_value.
           if raw_json_value \<noteq> JNull
           then value_from_json L raw_json_value cleaning_func is_list json_list_item_processor
                  specific_json_parser
           else value_from_css soup selector_config cleaning_func is_list css_list_item_processor))"

text \<open>The two sub-parsers that \<^verbatim>\<open>scrape_recipe_data\<close> passes as \<^verbatim>\<open>specific_json_parser\<close>
  return an integer or \<^verbatim>\<open>None\<close>.\<close>

definition duration_parser :: "pylib \<Rightarrow> json \<Rightarrow> py_error + json" where
  "duration_parser L v =
     ebind (parse_duration_to_minutes L v) (\<lambda>r. Inr (case r of None \<Rightarrow> JNull | Some i \<Rightarrow> JInt i))"

subsection \<open>The steps\<close>

text \<open>\<^verbatim>\<open>process_json_steps\<close>, the \<^verbatim>\<open>json_list_item_processor\<close> of the field \<^verbatim>\<open>steps\<close>.\<close>

definition step_text :: "pylib \<Rightarrow> json \<Rightarrow> string option option" where
  "step_text L step_item =
     (case step_item of
        JDict kvs \<Rightarrow>
          if map_of kvs ''@type'' = Some (JStr ''HowToStep'')
          then Some (clean_text L (case map_of kvs ''text'' of None \<Rightarrow> JNull | Some v \<Rightarrow> v))
          else None
      | JStr s \<Rightarrow> Some (clean_text L (JStr s))
      | _ \<Rightarrow> None)"

definition process_json_steps :: "pylib \<Rightarrow> json \<Rightarrow> py_error + json" where
  "process_json_steps L step_data_list =
     (case step_data_list of
        JList items \<Rightarrow>
          Inr (JList (concat (map (\<lambda>step_item.
                 case step_text L step_item of
                   Some (Some s) \<Rightarrow> if s \<noteq> [] then [JStr s] else []
                 | _ \<Rightarrow> []) items)))
      | _ \<Rightarrow> Inr (JList []))"

subsection \<open>The nutrition block of \<^verbatim>\<open>scrape_recipe_data\<close>\<close>

text \<open>The record under construction, \<^verbatim>\<open>scraped_data\<close>, is a dict from field names to
  values.  \<^verbatim>\<open>d[k] = v\<close> replaces the value of a key the dict has and appends a new key
  otherwise; \<^verbatim>\<open>d[k]\<close> raises \<^verbatim>\<open>KeyError\<close> for a key the dict lacks.\<close>

fun dict_set :: "(string \<times> json) list \<Rightarrow> string \<Rightarrow> json \<Rightarrow> (string \<times> json) list" where
  "dict_set [] k v = [(k, v)]"
| "dict_set ((k', v') # d) k v = (if k' = k then (k, v) # d else (k', v') # dict_set d k v)"

definition dict_get :: "(string \<times> json) list \<Rightarrow> string \<Rightarrow> py_error + json" where
  "dict_get d k = (case map_of d k of None \<Rightarrow> Inl KeyError | Some v \<Rightarrow> Inr v)"

text \<open>Lines 249 and 250.\<close>

definition nutrition_clean_key :: "string \<Rightarrow> string" where
  "nutrition_clean_key key =
     (if py_contains ''calories'' (py_lower key) then ''calories''
      else py_lower (py_replace ''Content'' [] key))"

text \<open>Lines 246 to 254: the loop over the items of the embedded nutrition dict.\<close>

fun nutrition_from_json ::
  "pylib \<Rightarrow> (string \<times> json) list \<Rightarrow> (string \<times> json) list \<Rightarrow> py_error + (string \<times> json) list" where
  "nutrition_from_json L parsed_nutrition [] = Inr parsed_nutrition"
| "nutrition_from_json L parsed_nutrition ((key, value_str) # items) =
     ebind (extract_nutrition_value L (JStr (py_str L value_str))) (\<lambda>num_value.
       nutrition_from_json L
         (case num_value of
            None \<Rightarrow> parsed_nutrition
          | Some x \<Rightarrow> dict_set parsed_nutrition (nutrition_clean_key key) (JFloat (Finite x)))
         items)"

text \<open>Lines 265 to 270: the loop over \<^verbatim>\<open>css_fields\<close>.\<close>

fun nutrition_from_css ::
  "pylib \<Rightarrow> node \<Rightarrow> (string \<times> json) list \<Rightarrow> (string \<times> strategy) list \<Rightarrow>
   py_error + (string \<times> json) list" where
  "nutrition_from_css L parent css_nutrition_data [] = Inr css_nutrition_data"
| "nutrition_from_css L parent css_nutrition_data ((key, field_strategies) # css_rest) =
     (let v = extract_data_point parent [field_strategies] (Some (clean_text_fn L)) in
      if truthy v
      then ebind (extract_nutrition_value L v) (\<lambda>num_value.
             nutrition_from_css L parent
               (case num_value of
                  None \<Rightarrow> css_nutrition_data
                | Some x \<Rightarrow> dict_set css_nutrition_data (py_replace ''_schema'' [] key) (JFloat (Finite x)))
               css_rest)
      else nutrition_from_css L parent css_nutrition_data css_rest)"

text \<open>Lines 243 to 273.  The result is \<^verbatim>\<open>scraped_data\<close> after the block, or the
  exception that leaves \<^verbatim>\<open>scrape_recipe_data\<close>.\<close>

definition scrape_nutrition_info ::
  "pylib \<Rightarrow> json \<Rightarrow> node \<Rightarrow> (string \<times> json) list \<Rightarrow> py_error + (string \<times> json) list" where
  "scrape_nutrition_info L json_ld_data soup scraped_data =
     ebind (get_value L json_ld_data soup ''nutrition_info'' None False None None None)
       (\<lambda>nutrition_json.
     ebind (case nutrition_json of
              JDict items \<Rightarrow>
                ebind (nutrition_from_json L [] items) (\<lambda>parsed_nutrition.
                  Inr (dict_set scraped_data ''nutrition_info'' (JDict parsed_nutrition)))
            | _ \<Rightarrow> Inr scraped_data)
       (\<lambda>scraped_data1.
     ebind (dict_get scraped_data1 ''nutrition_info'') (\<lambda>current.
       if truthy current then Inr scraped_data1
       else (let nutrition_css_config = selectors_get ''nutrition_info'' in
             case css_selectors_parent nutrition_css_config of
               None \<Rightarrow> Inr scraped_data1
             | Some parent_selector \<Rightarrow>
                 if parent_selector = [] then Inr scraped_data1
                 else ebind (node_select_one soup parent_selector) (\<lambda>nutrition_parent_el.
                        case nutrition_parent_el of
                          None \<Rightarrow> Inr scraped_data1
                        | Some parent \<Rightarrow>
                            ebind (nutrition_from_css L parent []
                                     (case css_fields nutrition_css_config of
                                        None \<Rightarrow> []
                                      | Some fs \<Rightarrow> fs))
                              (\<lambda>css_nutrition_data.
                                 Inr (dict_set scraped_data1 ''nutrition_info''
                                        (JDict css_nutrition_data))))))))"

text \<open>The keys that \<^verbatim>\<open>scraped_data\<close> holds when the nutrition block starts (lines 134 to
  239), with placeholder values: \<^verbatim>\<open>nutrition_info\<close> is not among them.\<close>

definition scraped_before_nutrition :: "(string \<times> json) list" where
  "scraped_before_nutrition =
     map (\<lambda>k. (k, JNull))
       [''source_url'', ''scraped_at_timestamp'', ''disclaimer'', ''name'', ''description'',
        ''external_id'', ''prep_time_minutes'', ''cook_time_minutes'', ''total_time_minutes'',
        ''servings'', ''image_url'', ''ingredients'', ''allergens_extracted_from_ingredients'',
        ''steps'']"

text \<open>A page on which no selector matches anything.\<close>

definition empty_page :: node where
  "empty_page = Node [] [] (\<lambda>sel. Inr None) (\<lambda>sel. Inr [])"

section \<open>Notions used in the statements\<close>

text \<open>A non-empty string of decimal digits.\<close>

definition digit_string :: "string \<Rightarrow> bool" where
  "digit_string ds = (ds \<noteq> [] \<and> list_all is_digit ds)"

text \<open>The machine-duration codes \<^verbatim>\<open>PThHmM\<close>, \<^verbatim>\<open>PTmM\<close> and \<^verbatim>\<open>PThH\<close>, with the counts written
  in decimal as \<^verbatim>\<open>str\<close> writes them.\<close>

definition iso_code :: "nat \<Rightarrow> nat \<Rightarrow> string" where
  "iso_code h m = ''PT'' @ str_nat h @ ''H'' @ str_nat m @ ''M''"

definition iso_code_minutes :: "nat \<Rightarrow> string" where
  "iso_code_minutes m = ''PT'' @ str_nat m @ ''M''"

definition iso_code_hours :: "nat \<Rightarrow> string" where
  "iso_code_hours h = ''PT'' @ str_nat h @ ''H''"

text \<open>The lookup as the specification words it: a segment must match a key of a mapping
  or, for an integer segment, a valid index of a sequence; anything else is a mismatch,
  and a mismatch at any segment makes the lookup absent.\<close>

definition match_segment :: "json \<Rightarrow> pkey \<Rightarrow> json option" where
  "match_segment current_data key =
     (case current_data of
        JDict kvs \<Rightarrow> (case key of KStr k \<Rightarrow> map_of kvs k | KInt i \<Rightarrow> None)
      | JList xs \<Rightarrow>
          (case key of
             KInt i \<Rightarrow> if 0 \<le> i \<and> i < int (length xs) then Some (xs ! nat i) else None
           | KStr k \<Rightarrow> None)
      | _ \<Rightarrow> None)"

fun path_lookup :: "json \<Rightarrow> pkey list \<Rightarrow> json option" where
  "path_lookup current_data [] = Some current_data"
| "path_lookup current_data (key # path) =
     (case match_segment current_data key of
        None \<Rightarrow> None
      | Some v \<Rightarrow> path_lookup v path)"

text \<open>The values that Python's \<^verbatim>\<open>isinstance(x, (int, float))\<close> accepts; \<^verbatim>\<open>bool\<close> is a
  subclass of \<^verbatim>\<open>int\<close>.\<close>

definition is_number :: "json \<Rightarrow> bool" where
  "is_number v = (case v of JBool b \<Rightarrow> True | JInt i \<Rightarrow> True | JFloat f \<Rightarrow> True | _ \<Rightarrow> False)"

text \<open>A path segment that is a mapping key or a non-negative index, and a table entry
  whose embedded-data path has only such segments.\<close>

definition nonneg_key :: "pkey \<Rightarrow> bool" where
  "nonneg_key k = (case k of KStr s \<Rightarrow> True | KInt i \<Rightarrow> 0 \<le> i)"

definition config_path_ok :: "selector_config \<Rightarrow> bool" where
  "config_path_ok c = (case json_ld_path c of None \<Rightarrow> True | Some p \<Rightarrow> list_all nonneg_key p)"


text \<open>A page on which every selector finds an element.\<close>

definition fallback_page :: node where
  "fallback_page =
     Node [] []
       (\<lambda>sel. Inr (Some (Node ''30 min'' [(''content'', ''PT30M'')] (\<lambda>s. Inr None) (\<lambda>s. Inr []))))
       (\<lambda>sel. Inr [Node ''2 cups flour'' [] (\<lambda>s. Inr None) (\<lambda>s. Inr [])])"

text \<open>The canonical nutrition key as the specification words it: a trailing \<^verbatim>\<open>Content\<close>
  is stripped and the remainder lower-cased, a key containing \<^verbatim>\<open>calories\<close> maps to
  \<^verbatim>\<open>calories\<close>.\<close>

definition strip_suffix_str :: "string \<Rightarrow> string \<Rightarrow> string" where
  "strip_suffix_str suf s =
     (if length suf \<le> length s \<and> drop (length s - length suf) s = suf
      then take (length s - length suf) s else s)"

definition spec_nutrition_key :: "string \<Rightarrow> string" where
  "spec_nutrition_key key =
     (if py_contains ''calories'' (py_lower key) then ''calories''
      else py_lower (strip_suffix_str ''Content'' key))"

text \<open>The normalised text of an item, when the item is text and its normalised text is
  a non-empty string: the lines for which the ingredient loop goes past its two
  \<^verbatim>\<open>continue\<close> statements.\<close>

definition cleaned_line :: "cleaning option \<Rightarrow> pyitem \<Rightarrow> string list" where
  "cleaned_line cleaning_func item =
     (case item_raw_text item of
        None \<Rightarrow> []
      | Some raw \<Rightarrow>
          (case call_cleaning cleaning_func (JStr raw) of
             Inr (JStr s) \<Rightarrow> if s = [] then [] else [s]
           | _ \<Rightarrow> []))"

text \<open>What \<^verbatim>\<open>clean_text\<close> makes of a string.\<close>

definition cleaned_text :: "pylib \<Rightarrow> string \<Rightarrow> string" where
  "cleaned_text L s = py_join '' '' (py_split_ws (bs_get_text L s))"

text \<open>Patterns without a capture group, and patterns that start with the captured digit
  run \<^verbatim>\<open>(\d+)\<close> and have no other group.\<close>

fun no_grp :: "rx \<Rightarrow> bool" where
  "no_grp (Grp n a) = False"
| "no_grp (Seq a b) = (no_grp a \<and> no_grp b)"
| "no_grp (Alt a b) = (no_grp a \<and> no_grp b)"
| "no_grp (Star a) = no_grp a"
| "no_grp r = True"

definition digits_first :: "rx \<Rightarrow> bool" where
  "digits_first r = (r = Grp 1 (Plus (Cls is_digit))
                     \<or> (\<exists>rest. no_grp rest \<and> r = Seq (Grp 1 (Plus (Cls is_digit))) rest))"

section \<open>The matcher on the patterns of the program\<close>

declare rmatch.simps [simp del]

lemma rmatch_Eps [simp]: "rmatch Eps st = [st]"
  by (simp add: rmatch.simps)

lemma rmatch_Cls [simp]:
  "rmatch (Cls p) (i, s, c) = (case s of [] \<Rightarrow> [] | x # xs \<Rightarrow> if p x then [(Suc i, xs, c)] else [])"
  by (cases s) (simp_all add: rmatch.simps)

lemma rmatch_Seq [simp]: "rmatch (Seq a b) st = concat (map (rmatch b) (rmatch a st))"
  by (simp add: rmatch.simps)

lemma rmatch_Alt [simp]: "rmatch (Alt a b) st = rmatch a st @ rmatch b st"
  by (simp add: rmatch.simps)

lemma rmatch_Star [simp]: "rmatch (Star a) (i, s, c) = star_iter (length s) (rmatch a) (i, s, c)"
  by (simp add: rmatch.simps)

lemma rmatch_Grp [simp]:
  "rmatch (Grp n a) (i, s, c) =
     map (\<lambda>st'. (fst st', fst (snd st'), (n, take (fst st' - i) s) # snd (snd st'))) (rmatch a (i, s, c))"
  by (simp add: rmatch.simps)

lemma rmatch_Bol [simp]: "rmatch Bol (i, s, c) = (if i = 0 then [(i, s, c)] else [])"
  by (simp add: rmatch.simps)

lemma rmatch_Eol [simp]: "rmatch Eol (i, s, c) = (if s = [] \<or> s = [CHR 0x0A] then [(i, s, c)] else [])"
  by (simp add: rmatch.simps)

lemma upt_0_Suc_Suc: "[0..<Suc (Suc l)] = 0 # map Suc [0..<Suc l]"
  unfolding map_Suc_upt by (rule upt_conv_Cons) simp

lemma star_cls:
  "length s \<le> n \<Longrightarrow> star_iter n (rmatch (Cls p)) (i, s, c) =
     map (\<lambda>k. (i + k, drop k s, c)) (rev [0..<Suc (length (takeWhile p s))])"
proof (induction s arbitrary: i n)
  case Nil
  then show ?case by (cases n) auto
next
  case (Cons x xs)
  then obtain m where n: "n = Suc m" and m: "length xs \<le> m" by (cases n) auto
  show ?case
  proof (cases "p x")
    case True
    then show ?thesis using Cons.IH[OF m, of "Suc i"] n
      by (simp add: upt_0_Suc_Suc rev_map comp_def del: upt_Suc)
  next
    case False
    then show ?thesis using n by simp
  qed
qed

lemma rmatch_plus_cls:
  "rmatch (Plus (Cls p)) (i, s, c) =
     (case s of [] \<Rightarrow> []
      | x # xs \<Rightarrow> if p x then map (\<lambda>k. (Suc i + k, drop k xs, c)) (rev [0..<Suc (length (takeWhile p xs))]) else [])"
  by (cases s) (simp_all add: Plus_def star_cls del: upt_Suc)

lemma concat_map_last_only:
  "(\<And>k. k < n \<Longrightarrow> F k = []) \<Longrightarrow> concat (map F (rev [0..<Suc n])) = F n"
  by (simp add: concat_eq_Nil_conv) 

lemma rmatch_Chr:
  "rmatch (Chr x) (j, dw, c) = (if startswith dw [x] then [(Suc j, tl dw, c)] else [])"
  by (cases dw) (simp_all add: Chr_def startswith_def)

lemma rmatch_digits_then:
  assumes "\<not> is_digit x"
  shows "rmatch (rx_digits_then x) (i, s, c) =
     (if takeWhile is_digit s \<noteq> [] \<and> startswith (dropWhile is_digit s) [x]
      then [(i + length (takeWhile is_digit s) + 1, tl (dropWhile is_digit s),
             (1, takeWhile is_digit s) # c)]
      else [])"
proof (cases s)
  case Nil
  then show ?thesis by (simp add: rx_digits_then_def rmatch_plus_cls)
next
  case (Cons d s')
  show ?thesis
  proof (cases "is_digit d")
    case False
    then show ?thesis using Cons by (simp add: rx_digits_then_def rmatch_plus_cls)
  next
    case True
    let ?n = "length (takeWhile is_digit s')"
    let ?F = "\<lambda>k. rmatch (Chr x) (Suc (i + k), drop k s', (1, d # take k s') # c)"
    have small: "?F k = []" if "k < ?n" for k
    proof -
      have "drop k s' = drop k (takeWhile is_digit s') @ dropWhile is_digit s'"
        using that by (metis drop_append takeWhile_dropWhile_id diff_is_0_eq' drop_0 less_imp_le)
      moreover have ne: "drop k (takeWhile is_digit s') \<noteq> []" using that by simp
      moreover have "is_digit (hd (drop k (takeWhile is_digit s')))"
        using that by (metis ne hd_in_set in_set_dropD set_takeWhileD)
      ultimately show ?thesis using assms
        by (cases "drop k (takeWhile is_digit s')") (auto simp: Chr_def)
    qed
    have dr: "drop ?n s' = dropWhile is_digit s'" by (rule dropWhile_eq_drop[symmetric])
    have tk: "take ?n s' = takeWhile is_digit s'" by (rule takeWhile_eq_take[symmetric])
    have "rmatch (rx_digits_then x) (i, s, c) = concat (map ?F (rev [0..<Suc ?n]))"
      using True Cons
      by (simp add: rx_digits_then_def rmatch_plus_cls comp_def del: upt_Suc)
    also have "\<dots> = ?F ?n" using small by (rule concat_map_last_only)
    also have "\<dots> = (if startswith (dropWhile is_digit s') [x]
        then [(Suc (Suc (i + ?n)), tl (dropWhile is_digit s'), (1, d # takeWhile is_digit s') # c)] else [])"
      unfolding dr tk by (simp add: rmatch_Chr)
    finally show ?thesis using True Cons by simp
  qed
qed


lemma search_skip_run:
  assumes "\<not> is_digit x" "list_all is_digit ds" "\<not> is_digit y" "y \<noteq> x"
  shows "search_from (rx_digits_then x) i (ds @ y # rest) =
         search_from (rx_digits_then x) (i + length ds + 1) rest"
  using assms(2)
proof (induction ds arbitrary: i)
  case Nil
  then show ?case using assms by (simp add: rmatch_digits_then)
next
  case (Cons d ds)
  have tw: "takeWhile is_digit (ds @ y # rest) = ds" "dropWhile is_digit (ds @ y # rest) = y # rest"
    using Cons.prems assms(3) by (simp_all add: list_all_iff takeWhile_append2 dropWhile_append2)
  show ?case using Cons assms tw
    by (simp add: rmatch_digits_then startswith_def)
qed

lemma search_hit_run:
  assumes "\<not> is_digit x" "list_all is_digit ds" "ds \<noteq> []"
  shows "search_from (rx_digits_then x) i (ds @ x # rest) =
         Some \<lparr>m_start = i, m_end = i + length ds + 1, m_groups = [(1, ds)]\<rparr>"
proof -
  have tw: "takeWhile is_digit (ds @ x # rest) = ds" "dropWhile is_digit (ds @ x # rest) = x # rest"
    using assms by (simp_all add: list_all_iff takeWhile_append2 dropWhile_append2)
  obtain d ds' where ds: "ds = d # ds'" using assms(3) by (cases ds) auto
  have "search_from (rx_digits_then x) i (d # ds' @ x # rest) =
        Some \<lparr>m_start = i, m_end = i + length ds + 1, m_groups = [(1, ds)]\<rparr>"
    using tw assms(1) unfolding ds by (simp add: rmatch_digits_then startswith_def)
  then show ?thesis by (simp add: ds)
qed

lemma search_nil: "\<not> is_digit x \<Longrightarrow> search_from (rx_digits_then x) i [] = None"
  by (simp add: rmatch_digits_then)

lemma digit_not_special:
  assumes "is_digit c"
  shows "\<not> is_space c" "c \<noteq> CHR ''-''" "c \<noteq> CHR ''+''" "c \<noteq> CHR ''_''"
  using assms by (auto simp: is_digit_def is_space_def)

lemma digit_string_ends:
  assumes "digit_string ds"
  shows "\<not> is_space (hd ds)" "\<not> is_space (last ds)" "hd ds \<noteq> CHR ''-''" "hd ds \<noteq> CHR ''+''"
proof -
  have "is_digit (hd ds)" "is_digit (last ds)"
    using assms by (auto simp: digit_string_def list_all_iff)
  then show "\<not> is_space (hd ds)" "\<not> is_space (last ds)" "hd ds \<noteq> CHR ''-''" "hd ds \<noteq> CHR ''+''"
    by (simp_all add: digit_not_special)
qed

lemma py_strip_digit_string: "digit_string ds \<Longrightarrow> py_strip ds = ds"
proof -
  assume a: "digit_string ds"
  then have ne: "ds \<noteq> []" by (simp add: digit_string_def)
  have "dropWhile is_space (rev ds) = rev ds"
    using digit_string_ends(2)[OF a] ne by (cases "rev ds") (auto simp: last_rev hd_rev)
  moreover have "dropWhile is_space ds = ds"
    using digit_string_ends(1)[OF a] ne by (cases ds) auto
  ultimately show ?thesis by (simp add: py_strip_def py_lstrip_def py_rstrip_def)
qed

subsection \<open>Integers written in decimal\<close>

lemma int_body_ok_digits: "ds \<noteq> [] \<Longrightarrow> list_all is_digit ds \<Longrightarrow> int_body_ok ds"
  by (induction ds rule: int_body_ok.induct) (auto dest: digit_not_special(4))

lemma filter_underscore_digits: "list_all is_digit ds \<Longrightarrow> filter (\<lambda>c. c \<noteq> CHR ''_'') ds = ds"
  by (induction ds) (auto dest: digit_not_special(4))

lemma py_int_digit_string: "digit_string ds \<Longrightarrow> py_int ds = Inr (int (digits_val ds))"
  using digit_string_ends(3,4)[of ds]
  by (simp add: py_int_def py_strip_digit_string Let_def int_body_ok_digits filter_underscore_digits
      digit_string_def)

lemma digits_val_snoc: "digits_val (ds @ [c]) = 10 * digits_val ds + digit_val c"
  by (simp add: digits_val_def)

lemma digit_char: "n < 10 \<Longrightarrow> is_digit (''0123456789'' ! n) \<and> digit_val (''0123456789'' ! n) = n"
proof -
  assume "n < 10"
  then have "n \<in> {0, 1, 2, 3, 4, 5, 6, 7, 8, 9}" by auto
  then show ?thesis by (auto simp: is_digit_def digit_val_def)
qed

lemma str_nat_digits: "digit_string (str_nat n) \<and> digits_val (str_nat n) = n"
proof (induction n rule: str_nat.induct)
  case (1 n)
  show ?case
  proof (cases "n < 10")
    case True
    then show ?thesis using digit_char[of n]
      by (subst (1 2) str_nat.simps) (simp add: digit_string_def digits_val_def)
  next
    case False
    then have "digit_string (str_nat (n div 10))" "digits_val (str_nat (n div 10)) = n div 10"
      using 1 by simp_all
    then show ?thesis using False digit_char[of "n mod 10"]
      by (subst (1 2) str_nat.simps) (simp add: digit_string_def digits_val_snoc)
  qed
qed

subsection \<open>Machine-duration codes\<close>

lemma search_skip_char:
  "\<not> is_digit x \<Longrightarrow> \<not> is_digit y \<Longrightarrow> y \<noteq> x \<Longrightarrow>
   search_from (rx_digits_then x) i (y # rest) = search_from (rx_digits_then x) (Suc i) rest"
  using search_skip_run[of x "[]" y i rest] by simp

lemma letters_not_digit:
  "\<not> is_digit CHR ''P''" "\<not> is_digit CHR ''T''" "\<not> is_digit CHR ''H''"
  "\<not> is_digit CHR ''M''" "\<not> is_digit CHR ''S''"
  by (simp_all add: is_digit_def)

lemma letters_not_space:
  "\<not> is_space CHR ''P''" "\<not> is_space CHR ''T''" "\<not> is_space CHR ''H''"
  "\<not> is_space CHR ''M''" "\<not> is_space CHR ''S''"
  by (simp_all add: is_space_def)

lemma split_ws_no_space:
  "list_all (\<lambda>c. \<not> is_space c) s \<Longrightarrow> split_ws_aux cur s = (if cur @ s = [] then [] else [cur @ s])"
  by (induction s arbitrary: cur) auto

lemma join_split_no_space:
  "list_all (\<lambda>c. \<not> is_space c) s \<Longrightarrow> py_join '' '' (py_split_ws s) = s"
  by (simp add: py_split_ws_def split_ws_no_space)

lemma digits_no_space: "list_all is_digit ds \<Longrightarrow> list_all (\<lambda>c. \<not> is_space c) ds"
  by (induction ds) (simp_all add: digit_not_special)

lemma re_search_hours_code:
  assumes "digit_string hs"
  shows "re_search (rx_digits_then CHR ''H'') (''PT'' @ hs @ CHR ''H'' # rest) =
         Some \<lparr>m_start = 2, m_end = 2 + length hs + 1, m_groups = [(1, hs)]\<rparr>"
  using assms
  by (simp add: re_search_def search_skip_char letters_not_digit search_hit_run digit_string_def
      del: search_from.simps)

lemma iso_duration_hm:
  assumes "digit_string hs" "digit_string ms"
  shows "iso_duration (''PT'' @ hs @ ''H'' @ ms @ ''M'') =
         Inr (Some (int (digits_val hs) * 60 + int (digits_val ms)))"
proof -
  let ?code = "''PT'' @ hs @ ''H'' @ ms @ ''M''"
  have dh: "list_all is_digit hs" "hs \<noteq> []" and dm: "list_all is_digit ms" "ms \<noteq> []"
    using assms by (simp_all add: digit_string_def)
  have H: "re_search (rx_digits_then CHR ''H'') ?code =
           Some \<lparr>m_start = 2, m_end = 2 + length hs + 1, m_groups = [(1, hs)]\<rparr>"
    using re_search_hours_code[OF assms(1), of "ms @ ''M''"] by simp
  have "re_search (rx_digits_then CHR ''M'') ?code =
        search_from (rx_digits_then CHR ''M'') (2 + length hs + 1) (ms @ CHR ''M'' # [])"
    using search_skip_run[of "CHR ''M''" hs "CHR ''H''" "Suc (Suc 0)" "ms @ ''M''"] dh
    by (simp add: re_search_def search_skip_char letters_not_digit del: search_from.simps)
  then have M: "re_search (rx_digits_then CHR ''M'') ?code =
        Some \<lparr>m_start = 2 + length hs + 1, m_end = 2 + length hs + 1 + length ms + 1,
              m_groups = [(1, ms)]\<rparr>"
    using search_hit_run[of "CHR ''M''" ms "Suc (Suc (Suc (length hs)))" "[]"] dm
    by (simp add: letters_not_digit del: search_from.simps)
  have "re_search (rx_digits_then CHR ''S'') ?code =
        search_from (rx_digits_then CHR ''S'') (2 + length hs + 1) (ms @ CHR ''M'' # [])"
    using search_skip_run[of "CHR ''S''" hs "CHR ''H''" "Suc (Suc 0)" "ms @ ''M''"] dh
    by (simp add: re_search_def search_skip_char letters_not_digit del: search_from.simps)
  then have S: "re_search (rx_digits_then CHR ''S'') ?code = None"
    using search_skip_run[of "CHR ''S''" ms "CHR ''M''" "Suc (Suc (Suc (length hs)))" "[]"] dm
    by (simp add: letters_not_digit search_nil del: search_from.simps)
  show ?thesis
    unfolding iso_duration_def iso_total_def has_iso_component_def H M S
    by (simp add: ebind_def group_def py_int_opt_def py_int_digit_string assms)
qed

lemma iso_duration_m:
  assumes "digit_string ms"
  shows "iso_duration (''PT'' @ ms @ ''M'') = Inr (Some (int (digits_val ms)))"
proof -
  let ?code = "''PT'' @ ms @ ''M''"
  have dm: "list_all is_digit ms" "ms \<noteq> []"
    using assms by (simp_all add: digit_string_def)
  have H: "re_search (rx_digits_then CHR ''H'') ?code = None"
    using search_skip_run[of "CHR ''H''" ms "CHR ''M''" "Suc (Suc 0)" "[]"] dm
    by (simp add: re_search_def search_skip_char letters_not_digit search_nil del: search_from.simps)
  have M: "re_search (rx_digits_then CHR ''M'') ?code =
        Some \<lparr>m_start = 2, m_end = 2 + length ms + 1, m_groups = [(1, ms)]\<rparr>"
    using search_hit_run[of "CHR ''M''" ms "Suc (Suc 0)" "[]"] dm
    by (simp add: re_search_def search_skip_char letters_not_digit del: search_from.simps)
  have S: "re_search (rx_digits_then CHR ''S'') ?code = None"
    using search_skip_run[of "CHR ''S''" ms "CHR ''M''" "Suc (Suc 0)" "[]"] dm
    by (simp add: re_search_def search_skip_char letters_not_digit search_nil del: search_from.simps)
  show ?thesis
    unfolding iso_duration_def iso_total_def has_iso_component_def H M S
    by (simp add: ebind_def group_def py_int_opt_def py_int_digit_string assms)
qed

lemma iso_duration_h:
  assumes "digit_string hs"
  shows "iso_duration (''PT'' @ hs @ ''H'') = Inr (Some (int (digits_val hs) * 60))"
proof -
  let ?code = "''PT'' @ hs @ ''H''"
  have dh: "list_all is_digit hs" "hs \<noteq> []"
    using assms by (simp_all add: digit_string_def)
  have H: "re_search (rx_digits_then CHR ''H'') ?code =
        Some \<lparr>m_start = 2, m_end = 2 + length hs + 1, m_groups = [(1, hs)]\<rparr>"
    using search_hit_run[of "CHR ''H''" hs "Suc (Suc 0)" "[]"] dh
    by (simp add: re_search_def search_skip_char letters_not_digit del: search_from.simps)
  have M: "re_search (rx_digits_then CHR ''M'') ?code = None"
    using search_skip_run[of "CHR ''M''" hs "CHR ''H''" "Suc (Suc 0)" "[]"] dh
    by (simp add: re_search_def search_skip_char letters_not_digit search_nil del: search_from.simps)
  have S: "re_search (rx_digits_then CHR ''S'') ?code = None"
    using search_skip_run[of "CHR ''S''" hs "CHR ''H''" "Suc (Suc 0)" "[]"] dh
    by (simp add: re_search_def search_skip_char letters_not_digit search_nil del: search_from.simps)
  show ?thesis
    unfolding iso_duration_def iso_total_def has_iso_component_def H M S
    by (simp add: ebind_def group_def py_int_opt_def py_int_digit_string assms)
qed

lemma parse_duration_PT:
  assumes "bs_get_text L (''PT'' @ rest) = ''PT'' @ rest" "list_all (\<lambda>c. \<not> is_space c) rest"
  shows "parse_duration_to_minutes L (JStr (''PT'' @ rest)) = iso_duration (''PT'' @ rest)"
proof -
  have "list_all (\<lambda>c. \<not> is_space c) (''PT'' @ rest)"
    using assms(2) by (simp add: letters_not_space)
  then have "py_join '' '' (py_split_ws (''PT'' @ rest)) = ''PT'' @ rest"
    by (rule join_split_no_space)
  then show ?thesis using assms(1)
    by (simp add: parse_duration_to_minutes_def clean_text_def py_str_def startswith_def)
qed


subsection \<open>Captured digit runs\<close>

lemma star_iter_caps:
  assumes "\<And>st st'. st' \<in> set (f st) \<Longrightarrow> snd (snd st') = snd (snd st)"
  shows "st' \<in> set (star_iter n f st) \<Longrightarrow> snd (snd st') = snd (snd st)"
proof (induction n arbitrary: st st')
  case 0
  then show ?case by simp
next
  case (Suc n)
  from Suc.prems consider "st' = st"
    | st1 where "st1 \<in> set (f st)" "st' \<in> set (star_iter n f st1)"
    by auto
  then show ?case
  proof cases
    case 1
    then show ?thesis by simp
  next
    case 2
    then show ?thesis using Suc.IH[of st' st1] assms[of st1 st] by simp
  qed
qed

lemma no_grp_caps:
  "no_grp r \<Longrightarrow> st' \<in> set (rmatch r st) \<Longrightarrow> snd (snd st') = snd (snd st)"
proof (induction r arbitrary: st st')
  case Eps
  then show ?case by simp
next
  case (Cls p)
  obtain i s c where st: "st = (i, s, c)" by (cases st)
  show ?case using Cls.prems(2) unfolding st by (cases s) (auto split: if_splits)
next
  case (Seq a b)
  from Seq.prems obtain st1 where "st1 \<in> set (rmatch a st)" "st' \<in> set (rmatch b st1)"
    by auto
  then show ?case using Seq.IH(1)[of st1 st] Seq.IH(2)[of st' st1] Seq.prems(1) by simp
next
  case (Alt a b)
  have "st' \<in> set (rmatch a st) \<or> st' \<in> set (rmatch b st)" using Alt.prems(2) by simp
  moreover have "no_grp a" "no_grp b" using Alt.prems(1) by simp_all
  ultimately show ?case using Alt.IH(1)[of st' st] Alt.IH(2)[of st' st] by blast
next
  case (Star a)
  have ih: "\<And>s1 s2. s2 \<in> set (rmatch a s1) \<Longrightarrow> snd (snd s2) = snd (snd s1)"
    using Star.IH Star.prems(1) by simp
  obtain i s c where st: "st = (i, s, c)" by (cases st)
  have "st' \<in> set (star_iter (length s) (rmatch a) st)" using Star.prems(2) st by simp
  then show ?case using ih by (rule star_iter_caps[rotated])
next
  case (Grp n a)
  then show ?case by simp
next
  case Bol
  then show ?case by (cases st) (auto split: if_splits)
next
  case Eol
  then show ?case by (cases st) (auto split: if_splits)
qed

lemma take_within_takeWhile:
  assumes "k \<le> length (takeWhile p xs)"
  shows "list_all p (take k xs)"
proof -
  have "take k xs = take k (takeWhile p xs @ dropWhile p xs)" by simp
  also have "\<dots> = take k (takeWhile p xs)" using assms by (simp del: takeWhile_dropWhile_id)
  finally have "set (take k xs) \<subseteq> set (takeWhile p xs)" by (simp add: set_take_subset)
  then show ?thesis by (auto simp: list_all_iff dest: set_takeWhileD)
qed

lemma rmatch_digit_group:
  assumes "st' \<in> set (rmatch (Grp 1 (Plus (Cls is_digit))) (i, s, c))"
  shows "\<exists>ds. digit_string ds \<and> snd (snd st') = (1, ds) # c"
proof (cases s)
  case Nil
  then show ?thesis using assms by (simp add: rmatch_plus_cls)
next
  case (Cons x xs)
  show ?thesis
  proof (cases "is_digit x")
    case False
    then show ?thesis using assms Cons by (simp add: rmatch_plus_cls)
  next
    case True
    have "st' \<in> (\<lambda>k. (Suc i + k, drop k xs, (1, x # take k xs) # c))
                 ` {0..<Suc (length (takeWhile is_digit xs))}"
      using assms Cons True by (simp add: rmatch_plus_cls image_comp comp_def del: upt_Suc)
    then obtain k where "st' = (Suc i + k, drop k xs, (1, x # take k xs) # c)"
      and "k \<in> {0..<Suc (length (takeWhile is_digit xs))}"
      by (rule imageE)
    then have k: "k \<le> length (takeWhile is_digit xs)"
      and st': "snd (snd st') = (1, x # take k xs) # c"
      by simp_all
    have "list_all is_digit (take k xs)"
      using k by (rule take_within_takeWhile)
    then show ?thesis using st' True by (auto simp: digit_string_def)
  qed
qed

lemma rmatch_digit_group_then:
  assumes "no_grp rest"
    and "st' \<in> set (rmatch (Seq (Grp 1 (Plus (Cls is_digit))) rest) (i, s, c))"
  shows "\<exists>ds. digit_string ds \<and> snd (snd st') = (1, ds) # c"
proof -
  from assms(2) obtain st1 where a: "st1 \<in> set (rmatch (Grp 1 (Plus (Cls is_digit))) (i, s, c))"
    and b: "st' \<in> set (rmatch rest st1)"
    by (auto simp del: rmatch_Grp)
  show ?thesis using rmatch_digit_group[OF a] no_grp_caps[OF assms(1) b] by simp
qed

lemma search_from_groups:
  assumes "\<And>j t st'. st' \<in> set (rmatch r (j, t, [])) \<Longrightarrow> P (snd (snd st'))"
  shows "search_from r i s = Some m \<Longrightarrow> P (m_groups m)"
proof (induction s arbitrary: i)
  case Nil
  then obtain st1 sts where "rmatch r (i, [], []) = st1 # sts" "m_groups m = snd (snd st1)"
    by (auto split: list.splits)
  then show ?case using assms[of st1 i "[]"] by simp
next
  case (Cons c cs)
  show ?case
  proof (cases "rmatch r (i, c # cs, [])")
    case Nil
    then show ?thesis using Cons by simp
  next
    case (Cons st1 sts)
    then have "m_groups m = snd (snd st1)" using Cons.prems by auto
    then show ?thesis using assms[of st1 i "c # cs"] Cons by simp
  qed
qed

lemma digits_first_group:
  assumes "digits_first r" "re_search r s = Some m"
  shows "\<exists>ds. digit_string ds \<and> py_int_opt (group m 1) = Inr (int (digits_val ds))"
proof -
  have "\<exists>ds. digit_string ds \<and> snd (snd st') = [(1, ds)]"
    if "st' \<in> set (rmatch r (j, t, []))" for j t st'
    using assms(1) that rmatch_digit_group[of st' j t "[]"] rmatch_digit_group_then[of _ st' j t "[]"]
    unfolding digits_first_def by blast
  then have "\<exists>ds. digit_string ds \<and> m_groups m = [(1, ds)]"
    using search_from_groups[of r "\<lambda>g. \<exists>ds. digit_string ds \<and> g = [(1, ds)]" 0 s m] assms(2)
    by (simp add: re_search_def)
  then show ?thesis by (auto simp: group_def py_int_opt_def py_int_digit_string)
qed

lemma digits_first_patterns:
  "\<not> is_digit x \<Longrightarrow> digits_first (rx_digits_then x)"
  "digits_first rx_hour_text" "digits_first rx_minute_text" "digits_first rx_first_int"
  by (simp_all add: digits_first_def rx_digits_then_def rx_hour_text_def rx_minute_text_def
      rx_first_int_def Chr_def Lit_def Opt_def)

lemma search_int_cases:
  assumes "digits_first r"
  obtains "re_search r s = None"
  | m n where "re_search r s = Some m" "py_int_opt (group m 1) = Inr (int n)"
proof (cases "re_search r s")
  case None
  then show ?thesis using that(1) by simp
next
  case (Some m)
  then obtain ds where "py_int_opt (group m 1) = Inr (int (digits_val ds))"
    using digits_first_group[OF assms Some] by blast
  then show ?thesis using that(2)[OF Some] by blast
qed

section \<open>The duration parser\<close>

text \<open>
  Claim C3.  For every machine-duration code of the form \<^verbatim>\<open>PThHmM\<close> (and of the forms
  \<^verbatim>\<open>PTmM\<close> and \<^verbatim>\<open>PThH\<close>, one count left out) that BeautifulSoup returns unchanged, the
  duration parser returns \<open>60 * h + m\<close> minutes; \<^verbatim>\<open>"PT45M"\<close> gives 45, \<^verbatim>\<open>"PT1H30M"\<close> gives 90,
  and the empty string gives \<^verbatim>\<open>None\<close>.
\<close>

theorem parse_duration_iso_codes:
  "(bs_get_text L (iso_code h m) = iso_code h m \<longrightarrow>
      parse_duration_to_minutes L (JStr (iso_code h m)) = Inr (Some (60 * int h + int m)))
   \<and> (bs_get_text L (iso_code_minutes n) = iso_code_minutes n \<longrightarrow>
      parse_duration_to_minutes L (JStr (iso_code_minutes n)) = Inr (Some (int n)))
   \<and> (bs_get_text L (iso_code_hours k) = iso_code_hours k \<longrightarrow>
      parse_duration_to_minutes L (JStr (iso_code_hours k)) = Inr (Some (60 * int k)))
   \<and> (bs_get_text L ''PT45M'' = ''PT45M'' \<longrightarrow>
      parse_duration_to_minutes L (JStr ''PT45M'') = Inr (Some 45))
   \<and> (bs_get_text L ''PT1H30M'' = ''PT1H30M'' \<longrightarrow>
      parse_duration_to_minutes L (JStr ''PT1H30M'') = Inr (Some 90))
   \<and> parse_duration_to_minutes L (JStr '''') = Inr None"
proof (intro conjI impI)
  note d = str_nat_digits
  have sp: "list_all (\<lambda>c. \<not> is_space c) (str_nat k)" for k
    using d[of k] by (simp add: digit_string_def digits_no_space)
  { assume a: "bs_get_text L (iso_code h m) = iso_code h m"
    have "list_all (\<lambda>c. \<not> is_space c) (str_nat h @ ''H'' @ str_nat m @ ''M'')"
      using sp by (simp add: letters_not_space)
    then have "parse_duration_to_minutes L (JStr (iso_code h m)) = iso_duration (iso_code h m)"
      using parse_duration_PT[of L "str_nat h @ ''H'' @ str_nat m @ ''M''"] a
      by (simp add: iso_code_def)
    then show "parse_duration_to_minutes L (JStr (iso_code h m)) = Inr (Some (60 * int h + int m))"
      using iso_duration_hm[of "str_nat h" "str_nat m"] d by (simp add: iso_code_def) }
  { assume a: "bs_get_text L (iso_code_minutes n) = iso_code_minutes n"
    have "list_all (\<lambda>c. \<not> is_space c) (str_nat n @ ''M'')"
      using sp by (simp add: letters_not_space)
    then have "parse_duration_to_minutes L (JStr (iso_code_minutes n)) = iso_duration (iso_code_minutes n)"
      using parse_duration_PT[of L "str_nat n @ ''M''"] a
      by (simp add: iso_code_minutes_def)
    then show "parse_duration_to_minutes L (JStr (iso_code_minutes n)) = Inr (Some (int n))"
      using iso_duration_m[of "str_nat n"] d by (simp add: iso_code_minutes_def) }
  { assume a: "bs_get_text L (iso_code_hours k) = iso_code_hours k"
    have "list_all (\<lambda>c. \<not> is_space c) (str_nat k @ ''H'')"
      using sp by (simp add: letters_not_space)
    then have "parse_duration_to_minutes L (JStr (iso_code_hours k)) = iso_duration (iso_code_hours k)"
      using parse_duration_PT[of L "str_nat k @ ''H''"] a
      by (simp add: iso_code_hours_def)
    then show "parse_duration_to_minutes L (JStr (iso_code_hours k)) = Inr (Some (60 * int k))"
      using iso_duration_h[of "str_nat k"] d by (simp add: iso_code_hours_def) }
  { assume a: "bs_get_text L ''PT45M'' = ''PT45M''"
    have "parse_duration_to_minutes L (JStr ''PT45M'') = parse_duration_to_minutes plain_lib (JStr ''PT45M'')"
      using a by (simp add: parse_duration_to_minutes_def clean_text_def py_str_def plain_lib_def py_strip_def py_lstrip_def py_rstrip_def is_space_def)
    also have "\<dots> = Inr (Some 45)" by code_simp
    finally show "parse_duration_to_minutes L (JStr ''PT45M'') = Inr (Some 45)" . }
  { assume a: "bs_get_text L ''PT1H30M'' = ''PT1H30M''"
    have "parse_duration_to_minutes L (JStr ''PT1H30M'') = parse_duration_to_minutes plain_lib (JStr ''PT1H30M'')"
      using a by (simp add: parse_duration_to_minutes_def clean_text_def py_str_def plain_lib_def py_strip_def py_lstrip_def py_rstrip_def is_space_def)
    also have "\<dots> = Inr (Some 90)" by code_simp
    finally show "parse_duration_to_minutes L (JStr ''PT1H30M'') = Inr (Some 90)" . }
  show "parse_duration_to_minutes L (JStr '''') = Inr None"
    by (simp add: parse_duration_to_minutes_def)
qed

theorem parse_duration_iso_codes_witness:
  "parse_duration_to_minutes plain_lib (JStr (iso_code 2 5)) = Inr (Some 125)
   \<and> parse_duration_to_minutes plain_lib (JStr (iso_code_minutes 20)) = Inr (Some 20)
   \<and> parse_duration_to_minutes plain_lib (JStr (iso_code_hours 3)) = Inr (Some 180)
   \<and> parse_duration_to_minutes plain_lib (JStr ''PT45M'') = Inr (Some 45)
   \<and> parse_duration_to_minutes plain_lib (JStr ''PT1H30M'') = Inr (Some 90)"
proof -
  have g: "bs_get_text plain_lib (iso_code 2 5) = iso_code 2 5"
    "bs_get_text plain_lib (iso_code_minutes 20) = iso_code_minutes 20"
    "bs_get_text plain_lib (iso_code_hours 3) = iso_code_hours 3"
    "bs_get_text plain_lib ''PT45M'' = ''PT45M''"
    "bs_get_text plain_lib ''PT1H30M'' = ''PT1H30M''"
    by code_simp+
  show ?thesis using parse_duration_iso_codes[of plain_lib 2 5 20 3] g by simp
qed

subsection \<open>When the parser returns nothing\<close>

lemma iso_total_ok: "\<exists>t. iso_total s = Inr t \<and> 0 \<le> t"
proof -
  note d = digits_first_patterns(1)[OF letters_not_digit(3)]
    digits_first_patterns(1)[OF letters_not_digit(4)]
    digits_first_patterns(1)[OF letters_not_digit(5)]
  show ?thesis
    by (rule search_int_cases[OF d(1), of s]; rule search_int_cases[OF d(2), of s];
        rule search_int_cases[OF d(3), of s])
       (simp_all add: iso_total_def ebind_def)
qed

lemma text_total_ok: "\<exists>t. text_total s = Inr t \<and> 0 \<le> t"
  by (rule search_int_cases[OF digits_first_patterns(2), of "py_lower s"];
      rule search_int_cases[OF digits_first_patterns(3), of "py_lower s"];
      rule search_int_cases[OF digits_first_patterns(4), of "py_lower s"])
     (simp_all add: text_total_def ebind_def)

lemma iso_total_no_component: "\<not> has_iso_component s \<Longrightarrow> iso_total s = Inr 0"
  by (simp add: has_iso_component_def iso_total_def ebind_def)

lemma iso_duration_cases:
  "iso_duration s = Inr (if has_iso_component s then
      Some (case iso_total s of Inr t \<Rightarrow> t | Inl e \<Rightarrow> 0) else None)"
  using iso_total_ok[of s] iso_total_no_component[of s]
  by (auto simp: iso_duration_def ebind_def)

lemma text_duration_cases:
  "text_duration s = Inr (case text_total s of Inr t \<Rightarrow> if t = 0 then None else Some t | Inl e \<Rightarrow> None)"
  using text_total_ok[of s] by (auto simp: text_duration_def ebind_def)

lemma parse_duration_text:
  assumes "truthy v" "\<not> is_number v"
  shows "parse_duration_to_minutes L v =
     (if cleaned_text L (py_str L v) = [] then Inr None
      else if startswith (cleaned_text L (py_str L v)) ''PT''
      then iso_duration (cleaned_text L (py_str L v))
      else text_duration (cleaned_text L (py_str L v)))"
  using assms
  by (cases v)
     (simp_all add: parse_duration_to_minutes_def clean_text_def py_str_def cleaned_text_def
        is_number_def)

lemma parse_duration_number:
  assumes "truthy v" "is_number v"
  shows "parse_duration_to_minutes L v \<noteq> Inr None"
proof (cases v)
  case (JFloat f)
  then show ?thesis using assms
    by (cases f) (simp_all add: parse_duration_to_minutes_def float_to_int_def ebind_def)
qed (use assms in \<open>simp_all add: parse_duration_to_minutes_def is_number_def\<close>)

lemma parse_duration_non_finite:
  "parse_duration_to_minutes L (JFloat PosInf) = Inl OverflowError"
  "parse_duration_to_minutes L (JFloat NegInf) = Inl OverflowError"
  "parse_duration_to_minutes L (JFloat NaN) = Inl ValueError"
  by (simp_all add: parse_duration_to_minutes_def float_to_int_def ebind_def)

text \<open>
  Claim C4, as the specification states it, has the parser never return 0.  On the
  machine-duration code \<^verbatim>\<open>PT0M\<close> a minute component is recognised and the total is zero:
  line 50 returns 0.
\<close>

theorem parse_duration_zero_counterexample:
  "parse_duration_to_minutes plain_lib (JStr ''PT0M'') = Inr (Some 0)"
  by code_simp

text \<open>
  Claim C4, amended.  The duration parser returns \<^verbatim>\<open>None\<close> exactly in these cases: the
  input is empty (falsy); or the input is not a number and its normalised text is empty,
  or starts with \<^verbatim>\<open>PT\<close> and has no hour, minute or second component, or does not start
  with \<^verbatim>\<open>PT\<close> and has a computed total of zero minutes.  A code that starts with \<^verbatim>\<open>PT\<close>,
  has a component and totals zero minutes gives 0; free text never gives 0.
\<close>

theorem parse_duration_absent_cases:
  "(parse_duration_to_minutes L v = Inr None \<longleftrightarrow>
        \<not> truthy v
        \<or> (\<not> is_number v
            \<and> (cleaned_text L (py_str L v) = []
               \<or> (startswith (cleaned_text L (py_str L v)) ''PT''
                   \<and> \<not> has_iso_component (cleaned_text L (py_str L v)))
               \<or> (\<not> startswith (cleaned_text L (py_str L v)) ''PT''
                   \<and> text_total (cleaned_text L (py_str L v)) = Inr 0))))
   \<and> (truthy v \<and> \<not> is_number v \<and> startswith (cleaned_text L (py_str L v)) ''PT''
        \<and> has_iso_component (cleaned_text L (py_str L v))
        \<and> iso_total (cleaned_text L (py_str L v)) = Inr 0 \<longrightarrow>
        parse_duration_to_minutes L v = Inr (Some 0))
   \<and> (\<not> is_number v \<and> \<not> startswith (cleaned_text L (py_str L v)) ''PT'' \<longrightarrow>
        parse_duration_to_minutes L v \<noteq> Inr (Some 0))"
proof (intro conjI)
  let ?c = "cleaned_text L (py_str L v)"
  show "parse_duration_to_minutes L v = Inr None \<longleftrightarrow>
        \<not> truthy v
        \<or> (\<not> is_number v
            \<and> (?c = []
               \<or> (startswith ?c ''PT'' \<and> \<not> has_iso_component ?c)
               \<or> (\<not> startswith ?c ''PT'' \<and> text_total ?c = Inr 0)))"
  proof (cases "truthy v")
    case False
    then show ?thesis by (simp add: parse_duration_to_minutes_def)
  next
    case True
    show ?thesis
    proof (cases "is_number v")
      case n: True
      then show ?thesis using True parse_duration_number[OF True n, of L] by simp
    next
      case n: False
      show ?thesis
        using text_total_ok[of ?c] True n
        by (auto simp: parse_duration_text[OF True n] iso_duration_cases text_duration_cases
            split: if_splits)
    qed
  qed
  show "truthy v \<and> \<not> is_number v \<and> startswith ?c ''PT'' \<and> has_iso_component ?c
        \<and> iso_total ?c = Inr 0 \<longrightarrow> parse_duration_to_minutes L v = Inr (Some 0)"
    by (auto simp: parse_duration_text iso_duration_cases startswith_def)
  show "\<not> is_number v \<and> \<not> startswith ?c ''PT'' \<longrightarrow> parse_duration_to_minutes L v \<noteq> Inr (Some 0)"
  proof (cases "truthy v")
    case False
    then show ?thesis by (simp add: parse_duration_to_minutes_def)
  next
    case True
    then show ?thesis using text_total_ok[of ?c]
      by (auto simp: parse_duration_text text_duration_cases split: if_splits)
  qed
qed

theorem parse_duration_absent_cases_witness:
  "parse_duration_to_minutes plain_lib (JStr ''PT20S'') = Inr (Some 0)
   \<and> parse_duration_to_minutes plain_lib (JStr ''PT'') = Inr None
   \<and> parse_duration_to_minutes plain_lib (JStr ''soon'') = Inr None
   \<and> parse_duration_to_minutes plain_lib (JStr ''45 min'') \<noteq> Inr (Some 0)
   \<and> parse_duration_to_minutes plain_lib (JFloat (Finite (1 / 2))) \<noteq> Inr None"
proof -
  have c: "cleaned_text plain_lib (py_str plain_lib (JStr ''PT20S'')) = ''PT20S''"
    "cleaned_text plain_lib (py_str plain_lib (JStr ''PT'')) = ''PT''"
    "cleaned_text plain_lib (py_str plain_lib (JStr ''soon'')) = ''soon''"
    "cleaned_text plain_lib (py_str plain_lib (JStr ''45 min'')) = ''45 min''"
    by code_simp+
  have h: "has_iso_component ''PT20S''" "iso_total ''PT20S'' = Inr 0" "\<not> has_iso_component ''PT''"
    "text_total ''soon'' = Inr 0"
    by code_simp+
  have s: "startswith ''PT20S'' ''PT''" "startswith ''PT'' ''PT''" "\<not> startswith ''soon'' ''PT''"
    "\<not> startswith ''45 min'' ''PT''"
    by code_simp+
  have n: "\<not> is_number (JStr ''PT20S'')" "\<not> is_number (JStr ''PT'')" "\<not> is_number (JStr ''soon'')"
    "\<not> is_number (JStr ''45 min'')" "is_number (JFloat (Finite (1 / 2)))"
    by (simp_all add: is_number_def)
  note t1 = parse_duration_absent_cases[of plain_lib "JStr ''PT20S''"]
  note t2 = parse_duration_absent_cases[of plain_lib "JStr ''PT''"]
  note t3 = parse_duration_absent_cases[of plain_lib "JStr ''soon''"]
  note t4 = parse_duration_absent_cases[of plain_lib "JStr ''45 min''"]
  note t5 = parse_duration_absent_cases[of plain_lib "JFloat (Finite (1 / 2))"]
  have "parse_duration_to_minutes plain_lib (JStr ''PT20S'') = Inr (Some 0)"
    using t1 h s n unfolding c by simp
  moreover have "parse_duration_to_minutes plain_lib (JStr ''PT'') = Inr None"
    using t2 h s n unfolding c by simp
  moreover have "parse_duration_to_minutes plain_lib (JStr ''soon'') = Inr None"
    using t3 h s n unfolding c by simp
  moreover have "parse_duration_to_minutes plain_lib (JStr ''45 min'') \<noteq> Inr (Some 0)"
    using t4 s n unfolding c by simp
  moreover have "parse_duration_to_minutes plain_lib (JFloat (Finite (1 / 2))) \<noteq> Inr None"
    using t5 n by simp
  ultimately show ?thesis by simp
qed

section \<open>Embedded-path lookup\<close>

lemma py_index_in_range: "0 \<le> i \<Longrightarrow> i < int (length xs) \<Longrightarrow> py_index xs i = Inr (xs ! nat i)"
  by (simp add: py_index_def Let_def)

lemma walk_path_lookup:
  "list_all nonneg_key path \<Longrightarrow>
   walk_path cur path = Inr (case path_lookup cur path of Some v \<Rightarrow> v | None \<Rightarrow> JNull)"
proof (induction path arbitrary: cur)
  case Nil
  then show ?case by simp
next
  case (Cons key path)
  then have ih: "\<And>c. walk_path c path = Inr (case path_lookup c path of Some v \<Rightarrow> v | None \<Rightarrow> JNull)"
    by simp
  show ?case
  proof (cases key)
    case (KStr k)
    then show ?thesis using ih
      by (cases cur) (simp_all add: match_segment_def split: option.splits)
  next
    case (KInt i)
    then have "0 \<le> i" using Cons.prems by (simp add: nonneg_key_def)
    then show ?thesis using ih KInt
      by (cases cur) (simp_all add: match_segment_def py_index_in_range)
  qed
qed

lemma selectors_paths_ok: "list_all (\<lambda>kc. config_path_ok (snd kc)) SELECTORS"
  by code_simp

lemma selectors_get_path_ok:
  assumes "json_ld_path (selectors_get field_key) = Some p"
  shows "list_all nonneg_key p"
proof (cases "map_of SELECTORS field_key")
  case None
  then show ?thesis using assms by (simp add: selectors_get_def empty_config_def)
next
  case (Some c)
  then have "(field_key, c) \<in> set SELECTORS" by (rule map_of_SomeD)
  then have "config_path_ok c" using selectors_paths_ok by (auto simp: list_all_iff)
  then show ?thesis using assms Some by (simp add: selectors_get_def config_path_ok_def)
qed

text \<open>
  Claim C5, as the specification states it, covers every sequence of string keys and
  integer indices.  \<^verbatim>\<open>extract_from_json_ld\<close> tests \<^verbatim>\<open>key < len(current_data)\<close> only, so
  called with the index -3 into a sequence of two elements it raises \<^verbatim>\<open>IndexError\<close>.
\<close>

theorem extract_from_json_ld_negative_index:
  "extract_from_json_ld (JDict [(''a'', JList [JInt 1, JInt 2])]) [KStr ''a'', KInt (- 3)]
   = Inl IndexError"
  by (simp add: extract_from_json_ld_def py_index_def)

text \<open>
  Claim C5, amended.  For every embedded-data tree and every path of string keys and
  non-negative integer indices, embedded-path lookup is total: each segment must match a
  mapping key or, for an integer segment, a valid sequence index, and a mismatch at any
  segment yields \<^verbatim>\<open>None\<close> without raising.  Every path of the table \<^verbatim>\<open>SELECTORS\<close>, the only
  paths the program looks up, is such a path, so no lookup of the program raises.
\<close>

theorem extract_from_json_ld_total:
  "(list_all nonneg_key path \<longrightarrow>
      extract_from_json_ld json_ld_data path
        = Inr (if truthy json_ld_data \<and> path \<noteq> []
               then (case path_lookup json_ld_data path of Some v \<Rightarrow> v | None \<Rightarrow> JNull)
               else JNull))
   \<and> (json_ld_path (selectors_get field_key) = Some p \<longrightarrow>
        list_all nonneg_key p \<and> (\<exists>v. extract_from_json_ld json_ld_data p = Inr v))"
proof (intro conjI impI)
  assume "list_all nonneg_key path"
  then show "extract_from_json_ld json_ld_data path
        = Inr (if truthy json_ld_data \<and> path \<noteq> []
               then (case path_lookup json_ld_data path of Some v \<Rightarrow> v | None \<Rightarrow> JNull)
               else JNull)"
    by (simp add: extract_from_json_ld_def walk_path_lookup)
next
  assume a: "json_ld_path (selectors_get field_key) = Some p"
  then show "list_all nonneg_key p" by (rule selectors_get_path_ok)
  then show "\<exists>v. extract_from_json_ld json_ld_data p = Inr v"
    by (simp add: extract_from_json_ld_def walk_path_lookup)
qed

theorem extract_from_json_ld_total_witness:
  "extract_from_json_ld (JDict [(''a'', JList [JInt 1, JInt 2])]) [KStr ''a'', KInt 1] = Inr (JInt 2)
   \<and> extract_from_json_ld (JDict [(''a'', JList [JInt 1, JInt 2])]) [KStr ''a'', KInt 2] = Inr JNull
   \<and> extract_from_json_ld (JDict [(''a'', JList [JInt 1, JInt 2])]) [KStr ''b'', KInt 0] = Inr JNull
   \<and> extract_from_json_ld (JDict [(''a'', JList [JInt 1, JInt 2])]) [KStr ''a'', KStr ''b''] = Inr JNull
   \<and> (\<exists>v. extract_from_json_ld (JDict [(''a'', JList [JInt 1, JInt 2])]) [KStr ''name''] = Inr v)"
proof -
  let ?d = "JDict [(''a'', JList [JInt 1, JInt 2])]"
  have n: "list_all nonneg_key [KStr ''a'', KInt 1]" "list_all nonneg_key [KStr ''a'', KInt 2]"
    "list_all nonneg_key [KStr ''b'', KInt 0]" "list_all nonneg_key [KStr ''a'', KStr ''b'']"
    by (simp_all add: nonneg_key_def)
  have s: "json_ld_path (selectors_get ''name'') = Some [KStr ''name'']" by code_simp
  have l: "path_lookup ?d [KStr ''a'', KInt 1] = Some (JInt 2)"
    "path_lookup ?d [KStr ''a'', KInt 2] = None"
    "path_lookup ?d [KStr ''b'', KInt 0] = None"
    "path_lookup ?d [KStr ''a'', KStr ''b''] = None"
    by (simp_all add: match_segment_def)
  have "extract_from_json_ld ?d [KStr ''a'', KInt 1] = Inr (JInt 2)"
    using extract_from_json_ld_total[of "[KStr ''a'', KInt 1]" ?d] n(1) l(1) by simp
  moreover have "extract_from_json_ld ?d [KStr ''a'', KInt 2] = Inr JNull"
    using extract_from_json_ld_total[of "[KStr ''a'', KInt 2]" ?d] n(2) l(2) by simp
  moreover have "extract_from_json_ld ?d [KStr ''b'', KInt 0] = Inr JNull"
    using extract_from_json_ld_total[of "[KStr ''b'', KInt 0]" ?d] n(3) l(3) by simp
  moreover have "extract_from_json_ld ?d [KStr ''a'', KStr ''b''] = Inr JNull"
    using extract_from_json_ld_total[of "[KStr ''a'', KStr ''b'']" ?d] n(4) l(4) by simp
  moreover have "\<exists>v. extract_from_json_ld ?d [KStr ''name''] = Inr v"
    using extract_from_json_ld_total[of "[]" ?d "''name''" "[KStr ''name'']"] s by blast
  ultimately show ?thesis by blast
qed

section \<open>Presentation fallbacks\<close>





section \<open>The field resolver\<close>

lemma get_value_embedded:
  assumes "json_ld_path (selectors_get field_key) = Some p" "truthy json_ld_data" "p \<noteq> []"
    and "extract_from_json_ld json_ld_data p = Inr raw" "raw \<noteq> JNull"
  shows "get_value L json_ld_data soup field_key cf il jp cp sp = value_from_json L raw cf il jp sp"
  using assms by (simp add: get_value_def ebind_def Let_def)

text \<open>
  Claim C2.  When the embedded-data path of a field resolves to a value other than
  \<^verbatim>\<open>None\<close>, \<^verbatim>\<open>get_value\<close> returns what lines 151 to 158 compute from that value: the page
  plays no part in the result, and with a sub-parser configured the result is the
  sub-parser's, also when that is \<^verbatim>\<open>None\<close>.
\<close>

theorem embedded_value_ends_resolution:
  assumes "json_ld_path (selectors_get field_key) = Some p" "truthy json_ld_data" "p \<noteq> []"
    and "extract_from_json_ld json_ld_data p = Inr raw" "raw \<noteq> JNull"
  shows "get_value L json_ld_data soup field_key cf il jp cp sp
           = get_value L json_ld_data soup2 field_key cf il jp cp sp
         \<and> get_value L json_ld_data soup field_key cf il jp cp sp
           = value_from_json L raw cf il jp sp
         \<and> (\<forall>parser. sp = Some parser \<longrightarrow>
              get_value L json_ld_data soup field_key cf il jp cp sp = parser raw)"
  using get_value_embedded[OF assms] by (auto simp: value_from_json_def)

theorem embedded_value_ends_resolution_witness:
  "get_value plain_lib (JDict [(''prepTime'', JStr ''soon'')]) fallback_page ''prep_time_minutes''
     (Some (clean_text_fn plain_lib)) False None None (Some (duration_parser plain_lib))
   = get_value plain_lib (JDict [(''prepTime'', JStr ''soon'')]) empty_page ''prep_time_minutes''
     (Some (clean_text_fn plain_lib)) False None None (Some (duration_parser plain_lib))
   \<and> get_value plain_lib (JDict [(''prepTime'', JStr ''soon'')]) fallback_page ''prep_time_minutes''
     (Some (clean_text_fn plain_lib)) False None None (Some (duration_parser plain_lib))
   = Inr JNull
   \<and> get_value plain_lib JNull fallback_page ''prep_time_minutes''
     (Some (clean_text_fn plain_lib)) False None None (Some (duration_parser plain_lib))
   = Inr (JStr ''PT30M'')"
proof -
  have a: "json_ld_path (selectors_get ''prep_time_minutes'') = Some [KStr ''prepTime'']"
    by code_simp
  have b: "extract_from_json_ld (JDict [(''prepTime'', JStr ''soon'')]) [KStr ''prepTime'']
           = Inr (JStr ''soon'')"
    by (simp add: extract_from_json_ld_def)
  have t1: "truthy (JDict [(''prepTime'', JStr ''soon'')])" by simp
  have t2: "[KStr ''prepTime''] \<noteq> []" by simp
  have t3: "JStr ''soon'' \<noteq> JNull" by simp
  have c: "duration_parser plain_lib (JStr ''soon'') = Inr JNull"
    by code_simp
  have d: "get_value plain_lib JNull fallback_page ''prep_time_minutes''
     (Some (clean_text_fn plain_lib)) False None None (Some (duration_parser plain_lib))
   = Inr (JStr ''PT30M'')"
    by code_simp
  have th: "get_value plain_lib (JDict [(''prepTime'', JStr ''soon'')]) fallback_page
        ''prep_time_minutes'' (Some (clean_text_fn plain_lib)) False None None
        (Some (duration_parser plain_lib))
      = get_value plain_lib (JDict [(''prepTime'', JStr ''soon'')]) empty_page
        ''prep_time_minutes'' (Some (clean_text_fn plain_lib)) False None None
        (Some (duration_parser plain_lib))
    \<and> get_value plain_lib (JDict [(''prepTime'', JStr ''soon'')]) fallback_page
        ''prep_time_minutes'' (Some (clean_text_fn plain_lib)) False None None
        (Some (duration_parser plain_lib))
      = duration_parser plain_lib (JStr ''soon'')"
    using embedded_value_ends_resolution[OF a t1 t2 b t3, of plain_lib fallback_page
        "Some (clean_text_fn plain_lib)" False None None "Some (duration_parser plain_lib)" empty_page]
    by blast
  show ?thesis using th d unfolding c by blast
qed

text \<open>
  Claim C10.  For a list-typed field (\<^verbatim>\<open>ingredients\<close>, with no item processor, and \<^verbatim>\<open>steps\<close>,
  with \<^verbatim>\<open>process_json_steps\<close>), an embedded value that is not \<^verbatim>\<open>None\<close> and not a sequence
  resolves to the empty list, whatever the presentation fallbacks would find.
\<close>

theorem wrong_shaped_list_value_is_empty:
  assumes "json_ld_path (selectors_get field_key) = Some p" "truthy json_ld_data" "p \<noteq> []"
    and "extract_from_json_ld json_ld_data p = Inr raw" "raw \<noteq> JNull"
    and "\<forall>items. raw \<noteq> JList items"
    and "jp = None \<or> jp = Some (process_json_steps L)"
  shows "get_value L json_ld_data soup field_key cf True jp cp None = Inr (JList [])"
proof -
  have "value_from_json L raw cf True jp None = Inr (JList [])"
    using assms(6,7) by (cases raw) (auto simp: value_from_json_def process_json_steps_def)
  then show ?thesis using get_value_embedded[OF assms(1-5)] by simp
qed

theorem wrong_shaped_list_value_is_empty_witness:
  "get_value plain_lib (JDict [(''recipeIngredient'', JStr ''2 cups flour'')]) fallback_page
     ''ingredients'' None True None None None = Inr (JList [])
   \<and> get_value plain_lib (JDict [(''recipeInstructions'', JStr ''Stir.'')]) fallback_page
     ''steps'' (Some (clean_text_fn plain_lib)) True (Some (process_json_steps plain_lib))
     (Some parse_step_strings_list) None = Inr (JList [])
   \<and> get_value plain_lib JNull fallback_page
     ''steps'' (Some (clean_text_fn plain_lib)) True (Some (process_json_steps plain_lib))
     (Some parse_step_strings_list) None = Inr (JList [JStr ''2 cups flour''])"
proof -
  have a: "json_ld_path (selectors_get ''ingredients'') = Some [KStr ''recipeIngredient'']"
    "json_ld_path (selectors_get ''steps'') = Some [KStr ''recipeInstructions'']"
    by code_simp+
  have b: "extract_from_json_ld (JDict [(''recipeIngredient'', JStr ''2 cups flour'')])
             [KStr ''recipeIngredient''] = Inr (JStr ''2 cups flour'')"
    "extract_from_json_ld (JDict [(''recipeInstructions'', JStr ''Stir.'')])
             [KStr ''recipeInstructions''] = Inr (JStr ''Stir.'')"
    by (simp_all add: extract_from_json_ld_def)
  have d: "get_value plain_lib JNull fallback_page
     ''steps'' (Some (clean_text_fn plain_lib)) True (Some (process_json_steps plain_lib))
     (Some parse_step_strings_list) None = Inr (JList [JStr ''2 cups flour''])"
    by code_simp
  show ?thesis
    using wrong_shaped_list_value_is_empty[OF a(1) _ _ b(1), of None plain_lib fallback_page None None]
      wrong_shaped_list_value_is_empty[OF a(2) _ _ b(2), of "Some (process_json_steps plain_lib)"
        plain_lib fallback_page "Some (clean_text_fn plain_lib)" "Some parse_step_strings_list"]
      d
    by simp
qed

section \<open>The nutrition block\<close>

lemma nutrition_not_mapping_raises:
  assumes "get_value L json_ld_data soup ''nutrition_info'' None False None None None = Inr v"
    and "\<And>items. v \<noteq> JDict items"
    and "map_of scraped_data ''nutrition_info'' = None"
  shows "scrape_nutrition_info L json_ld_data soup scraped_data = Inl KeyError"
  using assms by (cases v) (auto simp: scrape_nutrition_info_def ebind_def dict_get_def)

text \<open>
  Claim C1.  Record assembly is meant never to abort on the nutrition field.  On a page
  whose embedded data has no nutrition entry, \<^verbatim>\<open>scraped_data["nutrition_info"]\<close> has not
  been assigned when line 257 reads it, and the block raises \<^verbatim>\<open>KeyError\<close> before the
  presentation fallback is tried.
\<close>

theorem nutrition_missing_raises:
  "scrape_nutrition_info plain_lib (JDict [(''name'', JStr ''Soup'')]) empty_page
     scraped_before_nutrition = Inl KeyError"
  by code_simp

theorem nutrition_missing_raises_witness:
  "isl (scrape_nutrition_info plain_lib (JDict [(''name'', JStr ''Soup'')]) empty_page
         scraped_before_nutrition)"
  using nutrition_missing_raises by simp

section \<open>Quantities of ingredient lines\<close>

lemma convert_quantity_keeps_token:
  "convert_quantity (Some q) \<noteq> Inl ValueError"
  "q \<noteq> [] \<Longrightarrow> convert_quantity (Some q) \<noteq> Inr None"
  by (auto simp: convert_quantity_def split: option.splits sum.splits py_error.splits)

text \<open>
  Claim C8.  The conversion of a quantity token is meant never to raise: a token that is
  no number is kept as a string.  Only \<^verbatim>\<open>ValueError\<close> is caught, so the line
  \<^verbatim>\<open>1/0 cup sugar\<close>, whose quantity token \<^verbatim>\<open>1/0\<close> matches the pattern, leaves
  \<^verbatim>\<open>parse_ingredient_strings_list\<close> with \<^verbatim>\<open>ZeroDivisionError\<close>.
\<close>

theorem ingredient_zero_denominator_raises:
  "parse_ingredient_strings_list plain_lib [PVal (JStr ''1/0 cup sugar'')]
     (Some (clean_text_fn plain_lib)) = Inl ZeroDivisionError"
  by code_simp

theorem ingredient_zero_denominator_raises_witness:
  "isl (parse_ingredient_strings_list plain_lib [PVal (JStr ''1/0 cup sugar'')]
         (Some (clean_text_fn plain_lib)))"
  using ingredient_zero_denominator_raises by simp

section \<open>Nutrition keys\<close>

lemma replace_aux_fuel:
  "old \<noteq> [] \<Longrightarrow> length s \<le> n \<Longrightarrow> length s \<le> m \<Longrightarrow>
   replace_aux n old new s = replace_aux m old new s"
proof (induction n arbitrary: m s)
  case 0
  then show ?case by (cases m) auto
next
  case (Suc n)
  show ?case
  proof (cases s)
    case Nil
    then show ?thesis by (cases m) auto
  next
    case (Cons c cs)
    then obtain m' where m: "m = Suc m'" using Suc.prems(3) by (cases m) auto
    have l: "length cs \<le> n" "length cs \<le> m'" using Suc.prems Cons m by auto
    have "length old \<ge> 1" using Suc.prems(1) by (cases old) auto
    then have d: "length (drop (length old) s) \<le> n" "length (drop (length old) s) \<le> m'"
      using l Cons by auto
    show ?thesis
      using Suc.IH[OF Suc.prems(1) l] Suc.IH[OF Suc.prems(1) d] Cons m by simp
  qed
qed

lemma replace_aux_py_replace:
  "old \<noteq> [] \<Longrightarrow> length s \<le> n \<Longrightarrow> replace_aux n old new s = py_replace old new s"
  unfolding py_replace_def by (rule replace_aux_fuel) auto

lemma replace_aux_absent:
  "\<not> py_contains old s \<Longrightarrow> replace_aux n old new s = s"
proof (induction n arbitrary: s)
  case 0
  then show ?case by simp
next
  case (Suc n)
  then show ?case by (cases s) auto
qed

lemma py_replace_absent:
  "\<not> py_contains old s \<Longrightarrow> py_replace old new s = s"
  by (simp add: py_replace_def replace_aux_absent)

lemma py_replace_first:
  assumes "old \<noteq> []" "\<not> py_contains old (pre @ butlast old)"
  shows "py_replace old new (pre @ old @ post) = pre @ new @ py_replace old new post"
  using assms(2)
proof (induction pre)
  case Nil
  obtain c cs where old: "old = c # cs" using assms(1) by (cases old) auto
  have "replace_aux (length cs + length post) old new post = py_replace old new post"
    using assms(1) by (intro replace_aux_py_replace) auto
  then show ?case by (simp add: py_replace_def old startswith_def)
next
  case (Cons c pre)
  have ns: "\<not> startswith (c # pre @ butlast old) old" and nc: "\<not> py_contains old (pre @ butlast old)"
    using Cons.prems by auto
  have "c # pre @ old @ post = (c # pre @ butlast old) @ [last old] @ post"
    using assms(1) by simp
  moreover have "length old \<le> length (c # pre @ butlast old)" by simp
  ultimately have "take (length old) (c # pre @ old @ post) = take (length old) (c # pre @ butlast old)"
    by (metis append.assoc take_all_iff take_append diff_is_0_eq' take_0 append_Nil2)
  then have ns': "\<not> startswith (c # pre @ old @ post) old"
    using ns by (simp add: startswith_def)
  have "replace_aux (length pre + (length old + length post)) old new (pre @ old @ post)
        = py_replace old new (pre @ old @ post)"
    using assms(1) by (intro replace_aux_py_replace) auto
  then show ?case using Cons.IH[OF nc] ns' by (simp add: py_replace_def)
qed

text \<open>
  Claim C9, as the specification states it, strips only a trailing \<^verbatim>\<open>Content\<close> and leaves
  text elsewhere in the key alone.  Line 249 is \<^verbatim>\<open>key.replace("Content", "").lower()\<close>,
  which removes \<^verbatim>\<open>Content\<close> wherever it stands: the key \<^verbatim>\<open>ContentFat\<close> becomes \<^verbatim>\<open>fat\<close>,
  not \<^verbatim>\<open>contentfat\<close>.
\<close>

theorem nutrition_key_counterexample:
  "nutrition_clean_key ''ContentFat'' = ''fat'' \<and> spec_nutrition_key ''ContentFat'' = ''contentfat''"
  by code_simp

text \<open>
  Claim C9, amended.  A key that contains \<^verbatim>\<open>calories\<close>, in any case, maps to \<^verbatim>\<open>calories\<close>.
  Any other key has every occurrence of \<^verbatim>\<open>Content\<close> removed, from left to right and
  wherever it stands, and is then lower-cased: a key without \<^verbatim>\<open>Content\<close> is only
  lower-cased, and a key whose first occurrence of \<^verbatim>\<open>Content\<close> follows \<^verbatim>\<open>pre\<close> becomes the
  lower-cased \<^verbatim>\<open>pre\<close> followed by what the rest of the key becomes.  The raw entry
  \<^verbatim>\<open>fatContent\<close> with value \<^verbatim>\<open>15g\<close> yields the key \<^verbatim>\<open>fat\<close> with magnitude 15.0.
\<close>

theorem nutrition_key_normalisation:
  "(py_contains ''calories'' (py_lower key) \<longrightarrow> nutrition_clean_key key = ''calories'')
   \<and> (\<not> py_contains ''calories'' (py_lower key) \<and> \<not> py_contains ''Content'' key \<longrightarrow>
        nutrition_clean_key key = py_lower key)
   \<and> (\<not> py_contains ''calories'' (py_lower (pre @ ''Content'' @ post))
        \<and> \<not> py_contains ''Content'' (pre @ ''Conten'') \<longrightarrow>
        nutrition_clean_key (pre @ ''Content'' @ post)
          = py_lower pre @ py_lower (py_replace ''Content'' [] post))
   \<and> nutrition_from_json L [] [(''fatContent'', JStr ''15g'')] = Inr [(''fat'', JFloat (Finite 15))]"
proof (intro conjI impI)
  show "nutrition_clean_key key = ''calories''" if "py_contains ''calories'' (py_lower key)"
    using that by (simp add: nutrition_clean_key_def)
  show "nutrition_clean_key key = py_lower key"
    if "\<not> py_contains ''calories'' (py_lower key) \<and> \<not> py_contains ''Content'' key"
    using that by (simp add: nutrition_clean_key_def py_replace_absent)
  show "nutrition_clean_key (pre @ ''Content'' @ post)
          = py_lower pre @ py_lower (py_replace ''Content'' [] post)"
    if "\<not> py_contains ''calories'' (py_lower (pre @ ''Content'' @ post))
        \<and> \<not> py_contains ''Content'' (pre @ ''Conten'')"
    using that py_replace_first[of "''Content''" pre "[]" post]
    by (simp add: nutrition_clean_key_def py_lower_def)
  have "extract_nutrition_value L (JStr ''15g'') = Inr (Some 15)"
    unfolding extract_nutrition_value_def py_str_def by code_simp
  moreover have "nutrition_clean_key ''fatContent'' = ''fat''" by code_simp
  ultimately show "nutrition_from_json L [] [(''fatContent'', JStr ''15g'')] = Inr [(''fat'', JFloat (Finite 15))]"
    by (simp add: ebind_def py_str_def)
qed

theorem nutrition_key_normalisation_witness:
  "nutrition_clean_key ''Calories (kcal)'' = ''calories''
   \<and> nutrition_clean_key ''Sodium'' = ''sodium''
   \<and> nutrition_clean_key ''fatContentTotal'' = ''fattotal''
   \<and> nutrition_clean_key ''ContentFatContent'' = ''fat''"
proof -
  have a: "py_contains ''calories'' (py_lower ''Calories (kcal)'')" by code_simp
  have b: "\<not> py_contains ''calories'' (py_lower ''Sodium'') \<and> \<not> py_contains ''Content'' ''Sodium''"
    by code_simp
  have c: "\<not> py_contains ''calories'' (py_lower (''fat'' @ ''Content'' @ ''Total''))
           \<and> \<not> py_contains ''Content'' (''fat'' @ ''Conten'')"
    by code_simp
  have d: "\<not> py_contains ''calories'' (py_lower ([] @ ''Content'' @ ''FatContent''))
           \<and> \<not> py_contains ''Content'' ([] @ ''Conten'')"
    by code_simp
  have e: "py_lower ''fat'' @ py_lower (py_replace ''Content'' [] ''Total'') = ''fattotal''"
    "py_lower [] @ py_lower (py_replace ''Content'' [] ''FatContent'') = ''fat''"
    by code_simp+
  have "nutrition_clean_key ''Calories (kcal)'' = ''calories''"
    using nutrition_key_normalisation[of "''Calories (kcal)''"] a by blast
  moreover have "nutrition_clean_key ''Sodium'' = ''sodium''"
  proof -
    have "nutrition_clean_key ''Sodium'' = py_lower ''Sodium''"
      using nutrition_key_normalisation[of "''Sodium''"] b by blast
    also have "\<dots> = ''sodium''" by code_simp
    finally show ?thesis .
  qed
  moreover have "nutrition_clean_key (''fat'' @ ''Content'' @ ''Total'') = ''fattotal''"
    using nutrition_key_normalisation[of _ "''fat''" "''Total''"] c e(1) by metis
  moreover have "nutrition_clean_key ([] @ ''Content'' @ ''FatContent'') = ''fat''"
    using nutrition_key_normalisation[of _ "[]" "''FatContent''"] d e(2) by metis
  ultimately show ?thesis by simp
qed

section \<open>The audit field of an ingredient\<close>

lemma parse_ingredient_item_full_text:
  "parse_ingredient_item L cf item = Inr r \<Longrightarrow>
   map ing_full_text (case r of None \<Rightarrow> [] | Some i \<Rightarrow> [i]) = cleaned_line cf item"
  by (auto simp: parse_ingredient_item_def cleaned_line_def ebind_def Let_def
      split: option.splits sum.splits json.splits if_splits prod.splits)

lemma parse_ingredient_loop_full_text:
  "parse_ingredient_loop L cf items = Inr ings \<Longrightarrow>
   map ing_full_text ings = concat (map (cleaned_line cf) items)"
proof (induction items arbitrary: ings)
  case Nil
  then show ?case by simp
next
  case (Cons item items)
  from Cons.prems obtain r parsed where
    r: "parse_ingredient_item L cf item = Inr r" and
    p: "parse_ingredient_loop L cf items = Inr parsed" and
    i: "ings = (case r of None \<Rightarrow> parsed | Some i \<Rightarrow> i # parsed)"
    by (auto simp: ebind_def split: sum.splits)
  show ?case
    using parse_ingredient_item_full_text[OF r] Cons.IH[OF p] i by (cases r) auto
qed

text \<open>
  Claim C7, as the specification states it, has every ingredient carry the untouched
  line.  The field \<^verbatim>\<open>full_text\<close> is assigned the normalised text: for the line
  \<^verbatim>\<open>Salt  and pepper\<close>, with two spaces, it holds \<^verbatim>\<open>Salt and pepper\<close>.
\<close>

theorem ingredient_full_text_counterexample:
  "parse_ingredient_strings_list plain_lib [PVal (JStr ''Salt  and pepper'')]
     (Some (clean_text_fn plain_lib))
   = Inr ([\<lparr>ing_name = Some ''Salt and pepper'', ing_quantity = None, ing_unit = None,
            ing_full_text = ''Salt and pepper'', ing_allergens_in_item = []\<rparr>], [])"
  by code_simp

text \<open>
  Claim C7, amended.  Whenever \<^verbatim>\<open>parse_ingredient_strings_list\<close> returns, the \<^verbatim>\<open>full_text\<close>
  fields of the ingredients it emits are, in order, the normalised texts
  (\<^verbatim>\<open>cleaning_func\<close> applied to the line) of the items that are text and whose normalised
  text is not empty, whatever the pattern match and the quantity conversion gave.
\<close>

theorem ingredient_full_text_is_cleaned:
  "parse_ingredient_strings_list L items cf = Inr (ings, allergens) \<Longrightarrow>
   map ing_full_text ings = concat (map (cleaned_line cf) items)"
  by (cases "items = []")
     (auto simp: parse_ingredient_strings_list_def ebind_def parse_ingredient_loop_full_text
           split: sum.splits)

theorem ingredient_full_text_is_cleaned_witness:
  "map ing_full_text
     [\<lparr>ing_name = Some ''Salt and pepper'', ing_quantity = None, ing_unit = None,
       ing_full_text = ''Salt and pepper'', ing_allergens_in_item = []\<rparr>]
   = concat (map (cleaned_line (Some (clean_text_fn plain_lib))) [PVal (JStr ''Salt  and pepper'')])
   \<and> concat (map (cleaned_line (Some (clean_text_fn plain_lib))) [PVal (JStr ''Salt  and pepper'')])
     = [''Salt and pepper'']"
proof -
  have a: "parse_ingredient_strings_list plain_lib [PVal (JStr ''Salt  and pepper'')]
     (Some (clean_text_fn plain_lib))
   = Inr ([\<lparr>ing_name = Some ''Salt and pepper'', ing_quantity = None, ing_unit = None,
            ing_full_text = ''Salt and pepper'', ing_allergens_in_item = []\<rparr>], [])"
    by code_simp
  have b: "concat (map (cleaned_line (Some (clean_text_fn plain_lib))) [PVal (JStr ''Salt  and pepper'')])
     = [''Salt and pepper'']"
    by code_simp
  show ?thesis using ingredient_full_text_is_cleaned[OF a] b by simp
qed

end
